theory Spec2Isabelle
  imports Main "HOL-Library.Word"
begin

section \<open>Data model of package stratumclient\<close>

text \<open>
  Strings are Go strings, that is byte sequences (\<open>char list\<close>). Instants of time are
  integers: nanoseconds on one time line, counted from the zero value \<^verbatim>\<open>time.Time{}\<close>;
  the wall clock and the monotonic clock of a \<^verbatim>\<open>time.Time\<close> are not told apart. Go's
  \<^verbatim>\<open>int\<close> is taken at 64 bits where the code computes with it (\<open>ExpiresIn\<close>).
\<close>

text \<open>
  Field \<^verbatim>\<open>Message\<close> of \<^verbatim>\<open>BackendError\<close> is \<open>Message_backend\<close> here, and the fields of
  a request and of a response carry the prefixes \<open>req_\<close> and \<open>resp_\<close>: a record field is
  a constant, and \<^verbatim>\<open>ErrorResponse\<close> has a \<^verbatim>\<open>Message\<close>, a \<^verbatim>\<open>Status\<close> and a
  \<^verbatim>\<open>StatusCode\<close> of its own.
\<close>

type_synonym time = int

definition zero_Time :: time where
  "zero_Time = 0"

record BackendError =
  SQL :: string
  Severity :: string
  Message_backend :: string
  Detail :: string
  Code :: string

record ErrorResponse =
  Backend :: "BackendError option"
  Message :: string
  Status :: string
  StatusCode :: int

record LoginResponse =
  AccessToken :: string
  ExpiresIn :: "64 word"
  TokenType :: string

text \<open>
  The values of Go's \<^verbatim>\<open>error\<close> that the package returns: the ones it makes itself with
  \<^verbatim>\<open>fmt.Errorf\<close> (the formatted message), the ones a library call handed back (opaque), an
  \<^verbatim>\<open>*ErrorResponse\<close>, and the run-time panic of a nil pointer dereference. The package
  never recovers from a panic, so the panic leaves every caller the way an error
  returned at once by each of them would; the state written so far stays.
\<close>

datatype error =
    Errorf string
  | LibraryError string
  | APIError ErrorResponse
  | NilDereference

record URL =
  Scheme :: string
  Opaque :: string
  User :: string
  Host :: string
  Path :: string
  RawPath :: string
  RawQuery :: string
  Fragment :: string

record Client =
  Username :: string
  Password :: string
  BaseURL :: string
  UserAgent :: string
  Timeout :: int
  InsecureSkipVerify :: bool
  prefix :: string
  url :: "URL option"
  token :: string
  validUntil :: time
  opened :: bool

text \<open>The \<^verbatim>\<open>data any\<close> argument: nil is \<open>None\<close>; a \<^verbatim>\<open>[]byte\<close> or any other value.\<close>

datatype 'v payload = Bytes string | Value 'v

record request =
  req_Method :: string
  req_URL :: string
  req_Body :: string
  req_Header :: "string \<rightharpoonup> string"

text \<open>
  What \<^verbatim>\<open>client.Do\<close> hands back: status line, status code, the value of
  \<^verbatim>\<open>Header.Get("Content-Type")\<close>, and the outcome of reading the body to its end.
\<close>

record response =
  resp_Status :: string
  resp_StatusCode :: int
  resp_ContentType :: string
  resp_Body :: "error + string"

section \<open>The collaborators\<close>

text \<open>
  The standard-library functions the package calls and whose code is not part of it are
  parameters. \<open>json_Unmarshal_LoginResponse\<close> and \<open>json_Unmarshal_ErrorResponse\<close> are
  \<^verbatim>\<open>json.Unmarshal(body, &p)\<close> for a pointer \<open>p\<close> to a fresh record: an error, or the
  pointer afterwards, which is nil (\<open>None\<close>) when the body is the JSON value null.
\<close>

record 'v lib =
  unicode_ToUpper :: "string \<Rightarrow> string"
  url_Parse :: "string \<Rightarrow> error + URL"
  URL_String :: "URL \<Rightarrow> string"
  json_Marshal :: "'v \<Rightarrow> error + string"
  http_NewRequest :: "string \<Rightarrow> string \<Rightarrow> string \<Rightarrow> error + request"
  json_Unmarshal_LoginResponse :: "string \<Rightarrow> error + LoginResponse option"
  json_Unmarshal_ErrorResponse :: "string \<Rightarrow> error + ErrorResponse option"

text \<open>
  The world outside: the clock (\<open>clock w n\<close> is what the \<open>n\<close>-th call of
  \<^verbatim>\<open>time.Now()\<close> returns) and the network (\<open>transport w n t i r\<close> is what the \<open>n\<close>-th
  \<^verbatim>\<open>client.Do\<close> returns for request \<open>r\<close> under timeout \<open>t\<close> and TLS toggle \<open>i\<close>).
  \<open>reads\<close> counts the clock readings taken, \<open>sent\<close> lists the requests handed to
  \<^verbatim>\<open>client.Do\<close>, oldest first.
\<close>

record world =
  clock :: "nat \<Rightarrow> time"
  reads :: nat
  transport :: "nat \<Rightarrow> int \<Rightarrow> bool \<Rightarrow> request \<Rightarrow> error + response"
  sent :: "request list"

definition time_Now :: "world \<Rightarrow> time \<times> world" where
  "time_Now w = (clock w (reads w), w\<lparr>reads := Suc (reads w)\<rparr>)"

definition client_Do :: "Client \<Rightarrow> request \<Rightarrow> world \<Rightarrow> (error + response) \<times> world" where
  "client_Do c req w =
     (transport w (length (sent w)) (Timeout c) (InsecureSkipVerify c) req,
      w\<lparr>sent := sent w @ [req]\<rparr>)"

section \<open>String helpers of package strings\<close>

definition is_ascii_lower :: "char \<Rightarrow> bool" where
  "is_ascii_lower ch \<longleftrightarrow> (97::nat) \<le> of_char ch \<and> (of_char ch :: nat) \<le> 122"

definition ascii_upper :: "char \<Rightarrow> char" where
  "ascii_upper ch = (if is_ascii_lower ch then char_of ((of_char ch :: nat) - 32) else ch)"

text \<open>
  \<^verbatim>\<open>strings.ToUpper\<close>: a string of ASCII bytes only has its letters a-z mapped bytewise;
  any other string goes through the Unicode mapping, a parameter.
\<close>

definition strings_ToUpper :: "'v lib \<Rightarrow> string \<Rightarrow> string" where
  "strings_ToUpper L s =
     (if \<forall>ch \<in> set s. (of_char ch :: nat) < 128 then map ascii_upper s
      else unicode_ToUpper L s)"

text \<open>\<^verbatim>\<open>strings.TrimLeft\<close> and \<^verbatim>\<open>strings.TrimRight\<close> for a cutset of ASCII bytes.\<close>

definition strings_TrimLeft :: "string \<Rightarrow> string \<Rightarrow> string" where
  "strings_TrimLeft s cutset = dropWhile (\<lambda>ch. ch \<in> set cutset) s"

definition strings_TrimRight :: "string \<Rightarrow> string \<Rightarrow> string" where
  "strings_TrimRight s cutset = rev (dropWhile (\<lambda>ch. ch \<in> set cutset) (rev s))"

text \<open>\<^verbatim>\<open>strings.Join\<close>.\<close>

fun strings_Join :: "string list \<Rightarrow> string \<Rightarrow> string" where
  "strings_Join [] sep = []"
| "strings_Join [x] sep = x"
| "strings_Join (x # y # rest) sep = x @ sep @ strings_Join (y # rest) sep"

section \<open>The error value of a response\<close>

text \<open>The method \<^verbatim>\<open>Error\<close> of \<^verbatim>\<open>*ErrorResponse\<close>, lines 99 to 126.\<close>

definition ErrorResponse_Error :: "ErrorResponse \<Rightarrow> string" where
  "ErrorResponse_Error e =
     strings_Join
       ((if Status e \<noteq> [] then [Status e] else [])
        @ (if Message e \<noteq> [] then [Message e] else [])
        @ (case Backend e of
             None \<Rightarrow> []
           | Some b \<Rightarrow>
               (if SQL b \<noteq> [] then [''sql: '' @ SQL b] else [])
               @ (if Message_backend b \<noteq> [] then [''message: '' @ Message_backend b] else [])
               @ (if Code b \<noteq> [] then [''code: '' @ Code b] else [])
               @ (if Severity b \<noteq> [] then [''severity: '' @ Severity b] else [])
               @ (if Detail b \<noteq> [] then [''detail: '' @ Detail b] else [])))
       '': ''"

section \<open>Standard base64\<close>

definition encodeStd :: string where
  "encodeStd = ''ABCDEFGHIJKLMNOPQRSTUVWXYZabcdefghijklmnopqrstuvwxyz0123456789+/''"

fun base64_groups :: "nat list \<Rightarrow> string" where
  "base64_groups (a # b # c # rest) =
     [encodeStd ! (a div 4), encodeStd ! ((a mod 4) * 16 + b div 16),
      encodeStd ! ((b mod 16) * 4 + c div 64), encodeStd ! (c mod 64)] @ base64_groups rest"
| "base64_groups [a, b] =
     [encodeStd ! (a div 4), encodeStd ! ((a mod 4) * 16 + b div 16),
      encodeStd ! ((b mod 16) * 4), CHR ''='']"
| "base64_groups [a] =
     [encodeStd ! (a div 4), encodeStd ! ((a mod 4) * 16), CHR ''='', CHR ''='']"
| "base64_groups [] = []"

text \<open>\<^verbatim>\<open>base64.StdEncoding.EncodeToString\<close>, with padding.\<close>

definition base64_EncodeToString :: "string \<Rightarrow> string" where
  "base64_EncodeToString s = base64_groups (map of_char s)"

section \<open>Call and login\<close>

definition time_Second :: "64 word" where
  "time_Second = 1000000000"

text \<open>
  \<^verbatim>\<open>time.Now().Add(time.Duration(n) * time.Second)\<close>: the product is a 64-bit
  multiplication and wraps; the sum of instant and duration is exact.
\<close>

definition Time_Add_seconds :: "time \<Rightarrow> 64 word \<Rightarrow> time" where
  "Time_Add_seconds t n = t + sint (n * time_Second)"

text \<open>
  Lines 241 to 248 of \<^verbatim>\<open>Call\<close>: the address as a string. \<^verbatim>\<open>c.url.String()\<close> on the nil
  pointer that \<^verbatim>\<open>c.url\<close> is before \<^verbatim>\<open>Open\<close> has parsed \<^verbatim>\<open>BaseURL\<close> panics.
\<close>

definition target_address :: "'v lib \<Rightarrow> Client \<Rightarrow> string \<Rightarrow> error + string" where
  "target_address L c query =
     (case url c of
        None \<Rightarrow> Inl NilDereference
      | Some u \<Rightarrow>
          (let cURL = strings_TrimRight (URL_String L u) ''/'' in
           if query = ''login/v1'' then Inr (cURL @ ''/'' @ query)
           else if \<not> opened c then Inl (Errorf ''config not opened with Open()'')
           else Inr (cURL @ ''/''
                     @ strings_TrimRight (strings_TrimLeft (prefix c) ''/'') ''/''
                     @ ''/'' @ strings_TrimLeft query ''/'')))"

text \<open>Lines 255 to 267: the request body.\<close>

definition encode_payload :: "'v lib \<Rightarrow> 'v payload option \<Rightarrow> error + string" where
  "encode_payload L data =
     (case data of
        None \<Rightarrow> Inr []
      | Some (Bytes b) \<Rightarrow> Inr b
      | Some (Value v) \<Rightarrow> json_Marshal L v)"

definition Header_Set :: "request \<Rightarrow> string \<Rightarrow> string \<Rightarrow> request" where
  "Header_Set req k v = req\<lparr>req_Header := (req_Header req)(k \<mapsto> v)\<rparr>"

text \<open>Lines 241 to 280: everything up to the authorization header; no effect on the world.\<close>

definition build_request ::
  "'v lib \<Rightarrow> Client \<Rightarrow> string \<Rightarrow> string \<Rightarrow> 'v payload option \<Rightarrow> error + request" where
  "build_request L c method query data =
     (case target_address L c query of
        Inl e \<Rightarrow> Inl e
      | Inr cURL \<Rightarrow>
          (case url_Parse L cURL of
             Inl e \<Rightarrow> Inl e
           | Inr u \<Rightarrow>
               (case encode_payload L data of
                  Inl e \<Rightarrow> Inl e
                | Inr post \<Rightarrow>
                    (case http_NewRequest L method (URL_String L u) post of
                       Inl e \<Rightarrow> Inl e
                     | Inr req \<Rightarrow>
                         (let agent = ''StratumClient/1.0'';
                              agent = (if UserAgent c \<noteq> [] then agent @ '' ('' @ UserAgent c @ '')''
                                       else agent)
                          in Inr (Header_Set
                                   (Header_Set
                                     (Header_Set req ''User-Agent'' agent)
                                     ''Content-Type'' ''application/json'')
                                   ''Accept'' ''application/json''))))))"

text \<open>Lines 316 to 335: the classification of a response whose body has been read.\<close>

definition classify :: "'v lib \<Rightarrow> response \<Rightarrow> string \<Rightarrow> error + string" where
  "classify L resp body =
     (let ct = resp_ContentType resp in
      if \<not> (resp_StatusCode resp = 200 \<or> resp_StatusCode resp = 201) then
        (if ct = ''application/json'' then
           (case json_Unmarshal_ErrorResponse L body of
              Inl e \<Rightarrow> Inl e
            | Inr None \<Rightarrow> Inl NilDereference
            | Inr (Some eresp) \<Rightarrow>
                Inl (APIError (eresp\<lparr>Status := resp_Status resp,
                                      StatusCode := resp_StatusCode resp\<rparr>)))
         else Inl (Errorf (resp_Status resp)))
      else if ct \<noteq> ''application/json'' then
        Inl (Errorf (''server responded with unknown Content-Type: '' @ ct))
      else Inr body)"

text \<open>Lines 296 to 335: sending the request, reading the body, classifying.\<close>

definition roundtrip :: "'v lib \<Rightarrow> Client \<Rightarrow> request \<Rightarrow> world \<Rightarrow> (error + string) \<times> world" where
  "roundtrip L c req w =
     (case client_Do c req w of
        (Inl e, w') \<Rightarrow> (Inl e, w')
      | (Inr resp, w') \<Rightarrow>
          (case resp_Body resp of
             Inl e \<Rightarrow> (Inl e, w')
           | Inr body \<Rightarrow> (classify L resp body, w')))"

text \<open>
  Line 285, \<^verbatim>\<open>c.token == "" || time.Now().After(c.validUntil)\<close>: the clock is read only
  when a token is held.
\<close>

definition token_stale :: "Client \<Rightarrow> world \<Rightarrow> bool \<times> world" where
  "token_stale c w =
     (if token c = [] then (True, w)
      else (case time_Now w of (now, w') \<Rightarrow> (validUntil c < now, w')))"

text \<open>Lines 283 and 293: the values of the Authorization header.\<close>

definition basic_auth :: "Client \<Rightarrow> string" where
  "basic_auth c = ''Basic '' @ base64_EncodeToString (Username c @ '':'' @ Password c)"

definition bearer_auth :: "Client \<Rightarrow> string" where
  "bearer_auth c = ''Bearer '' @ token c"

function Call ::
    "'v lib \<Rightarrow> string \<Rightarrow> string \<Rightarrow> 'v payload option \<Rightarrow> Client \<Rightarrow> world
       \<Rightarrow> (error + string) \<times> Client \<times> world"
  and login :: "'v lib \<Rightarrow> Client \<Rightarrow> world \<Rightarrow> error option \<times> Client \<times> world"
where
  "Call L method0 query data c w =
     (let method = strings_ToUpper L method0 in
      if data \<noteq> None \<and> method = ''GET'' then
        (Inl (Errorf (''post data not allowed with method '' @ method)), c, w)
      else
        (case build_request L c method query data of
           Inl e \<Rightarrow> (Inl e, c, w)
         | Inr req \<Rightarrow>
             if query = ''login/v1'' \<and> method = ''GET'' then
               (case roundtrip L c
                       (Header_Set req ''Authorization'' (basic_auth c))
                       w of
                  (r, w') \<Rightarrow> (r, c, w'))
             else
               (case token_stale c w of
                  (True, w1) \<Rightarrow>
                    (case login L (c\<lparr>token := [], validUntil := zero_Time\<rparr>) w1 of
                       (Some e, c2, w2) \<Rightarrow> (Inl e, c2, w2)
                     | (None, c2, w2) \<Rightarrow>
                         (case roundtrip L c2
                                 (Header_Set req ''Authorization'' (bearer_auth c2)) w2 of
                            (r, w3) \<Rightarrow> (r, c2, w3)))
                | (False, w1) \<Rightarrow>
                    (case roundtrip L c
                            (Header_Set req ''Authorization'' (bearer_auth c)) w1 of
                       (r, w3) \<Rightarrow> (r, c, w3)))))"
| "login L c w =
     (case Call L ''GET'' ''login/v1'' None c w of
        (Inl e, c1, w1) \<Rightarrow> (Some e, c1, w1)
      | (Inr body, c1, w1) \<Rightarrow>
          (case json_Unmarshal_LoginResponse L body of
             Inl e \<Rightarrow> (Some e, c1, w1)
           | Inr None \<Rightarrow> (Some NilDereference, c1, w1)
           | Inr (Some resp) \<Rightarrow>
               (case time_Now w1 of
                  (now, w2) \<Rightarrow>
                    (None,
                     c1\<lparr>token := AccessToken resp,
                        validUntil := Time_Add_seconds now (ExpiresIn resp)\<rparr>,
                     w2))))"
  by pat_completeness auto

termination
  by (relation "measure (\<lambda>x. case x of
        Inl (L, m, q, d, c, w) \<Rightarrow>
          (if q = ''login/v1'' \<and> strings_ToUpper L m = ''GET'' then 0 else 2)
      | Inr _ \<Rightarrow> 1)")
     (auto simp: strings_ToUpper_def ascii_upper_def is_ascii_lower_def)

declare Call.simps [simp del] login.simps [simp del]

section \<open>Open\<close>

definition Open :: "'v lib \<Rightarrow> Client \<Rightarrow> world \<Rightarrow> error option \<times> Client \<times> world" where
  "Open L c w =
     (if Username c = [] then (Some (Errorf ''missing: Username''), c, w)
      else if Password c = [] then (Some (Errorf ''missing: Password''), c, w)
      else if BaseURL c = [] then (Some (Errorf ''missing: BaseURL''), c, w)
      else
        (let c = (if Timeout c = 0 then c\<lparr>Timeout := 30\<rparr> else c) in
         case url_Parse L (BaseURL c) of
           Inl e \<Rightarrow> (Some e, c, w)
         | Inr u \<Rightarrow>
             (let c = c\<lparr>url := Some u\<rparr> in
              if Path u = [] then (Some (Errorf ''missing: path part in BaseURL''), c, w)
              else
                (let c = c\<lparr>prefix := Path u\<rparr>;
                     c = c\<lparr>url := Some (u\<lparr>Path := []\<rparr>)\<rparr>
                 in case login L c w of
                      (Some e, c', w') \<Rightarrow> (Some e, c', w')
                    | (None, c', w') \<Rightarrow> (None, c'\<lparr>opened := True\<rparr>, w')))))"

section \<open>Example instances\<close>

text \<open>
  Stand-ins for the parameters, used to run the definitions on concrete inputs. They agree
  with the Go library on the inputs used below: addresses of the plain shape
  \<^verbatim>\<open>scheme://host/path?query\<close> without escapes, and the response bodies listed.
\<close>

definition demo_url_Parse :: "string \<Rightarrow> error + URL" where
  "demo_url_Parse s =
     (let scheme = takeWhile (\<lambda>ch. ch \<noteq> CHR '':'') s;
          rest = drop (length scheme + 3) s;
          host = takeWhile (\<lambda>ch. ch \<noteq> CHR ''/'') rest;
          pq = dropWhile (\<lambda>ch. ch \<noteq> CHR ''/'') rest
      in Inr \<lparr>Scheme = scheme, Opaque = [], User = [], Host = host,
              Path = takeWhile (\<lambda>ch. ch \<noteq> CHR ''?'') pq, RawPath = [],
              RawQuery = drop 1 (dropWhile (\<lambda>ch. ch \<noteq> CHR ''?'') pq), Fragment = []\<rparr>)"

definition demo_URL_String :: "URL \<Rightarrow> string" where
  "demo_URL_String u =
     Scheme u @ ''://'' @ Host u @ Path u
       @ (if RawQuery u = [] then [] else ''?'' @ RawQuery u)"

definition login_body :: string where
  \<open>login_body = ''{"access_token":"abc","expires_in":60,"token_type":"bearer"}''\<close>

definition login_body_long :: string where
  \<open>login_body_long = ''{"access_token":"abc","expires_in":9223372037,"token_type":"bearer"}''\<close>

definition demo_Unmarshal_LoginResponse :: "string \<Rightarrow> error + LoginResponse option" where
  "demo_Unmarshal_LoginResponse body =
     (if body = login_body
        then Inr (Some \<lparr>AccessToken = ''abc'', ExpiresIn = 60, TokenType = ''bearer''\<rparr>)
      else if body = login_body_long
        then Inr (Some \<lparr>AccessToken = ''abc'', ExpiresIn = 9223372037, TokenType = ''bearer''\<rparr>)
      else if body = ''null'' then Inr None
      else Inl (LibraryError ''json: cannot unmarshal''))"

definition error_body :: string where
  \<open>error_body = ''{"error":"no such table","backend":{"code":"42P01"}}''\<close>

definition demo_Unmarshal_ErrorResponse :: "string \<Rightarrow> error + ErrorResponse option" where
  "demo_Unmarshal_ErrorResponse body =
     (if body = error_body
        then Inr (Some \<lparr>Backend = Some \<lparr>SQL = [], Severity = [], Message_backend = [],
                                          Detail = [], Code = ''42P01''\<rparr>,
                         Message = ''no such table'', Status = [], StatusCode = 0\<rparr>)
      else if body = ''null'' then Inr None
      else Inl (LibraryError ''json: cannot unmarshal''))"

definition demo_NewRequest :: "string \<Rightarrow> string \<Rightarrow> string \<Rightarrow> error + request" where
  "demo_NewRequest method address body =
     Inr \<lparr>req_Method = method, req_URL = address, req_Body = body, req_Header = Map.empty\<rparr>"

definition demo_lib :: "string lib" where
  "demo_lib =
     \<lparr>unicode_ToUpper = (\<lambda>s. s),
      url_Parse = demo_url_Parse,
      URL_String = demo_URL_String,
      json_Marshal = Inr,
      http_NewRequest = demo_NewRequest,
      json_Unmarshal_LoginResponse = demo_Unmarshal_LoginResponse,
      json_Unmarshal_ErrorResponse = demo_Unmarshal_ErrorResponse\<rparr>"

text \<open>A server that answers the login resource with \<open>login_body\<close> and anything else with an empty list.\<close>

definition demo_server :: "nat \<Rightarrow> int \<Rightarrow> bool \<Rightarrow> request \<Rightarrow> error + response" where
  "demo_server n t i req =
     (if req_URL req = ''https://h/login/v1''
        then Inr \<lparr>resp_Status = ''200 OK'', resp_StatusCode = 200,
                  resp_ContentType = ''application/json'', resp_Body = Inr login_body\<rparr>
      else Inr \<lparr>resp_Status = ''200 OK'', resp_StatusCode = 200,
                resp_ContentType = ''application/json'', resp_Body = Inr ''[]''\<rparr>)"

text \<open>A server that is down: every request fails in the transport.\<close>

definition dead_server :: "nat \<Rightarrow> int \<Rightarrow> bool \<Rightarrow> request \<Rightarrow> error + response" where
  "dead_server n t i req = Inl (LibraryError ''connection refused'')"

text \<open>A clock whose readings are 61 seconds apart, starting at \<open>T\<close>.\<close>

definition demo_world :: "time \<Rightarrow> world" where
  "demo_world T =
     \<lparr>clock = (\<lambda>n. T + int n * 61000000000), reads = 0, transport = demo_server, sent = []\<rparr>"

definition fresh_client :: Client where
  "fresh_client =
     \<lparr>Username = ''u'', Password = ''p'', BaseURL = ''https://h/v1/'', UserAgent = [],
      Timeout = 0, InsecureSkipVerify = False, prefix = [], url = None, token = [],
      validUntil = zero_Time, opened = False\<rparr>"

text \<open>The client as \<open>Open\<close> leaves it after a login that stored expiry \<open>E\<close>.\<close>

definition opened_client :: "time \<Rightarrow> Client" where
  "opened_client E =
     \<lparr>Username = ''u'', Password = ''p'', BaseURL = ''https://h/v1/'', UserAgent = [],
      Timeout = 30, InsecureSkipVerify = False, prefix = ''/v1/'',
      url = Some \<lparr>Scheme = ''https'', Opaque = [], User = [], Host = ''h'', Path = [],
                  RawPath = [], RawQuery = [], Fragment = []\<rparr>,
      token = ''abc'', validUntil = E, opened = True\<rparr>"

text \<open>Servers that answer every request with one fixed response.\<close>

definition fixed_server :: "response \<Rightarrow> nat \<Rightarrow> int \<Rightarrow> bool \<Rightarrow> request \<Rightarrow> error + response" where
  "fixed_server resp n t i req = Inr resp"

definition no_content_response :: response where
  "no_content_response =
     \<lparr>resp_Status = ''204 No Content'', resp_StatusCode = 204, resp_ContentType = [],
      resp_Body = Inr []\<rparr>"

definition charset_response :: response where
  "charset_response =
     \<lparr>resp_Status = ''200 OK'', resp_StatusCode = 200,
      resp_ContentType = ''application/json; charset=utf-8'', resp_Body = Inr ''[]''\<rparr>"

definition not_found_response :: response where
  "not_found_response =
     \<lparr>resp_Status = ''404 Not Found'', resp_StatusCode = 404,
      resp_ContentType = ''application/json'', resp_Body = Inr error_body\<rparr>"

definition null_error_response :: response where
  "null_error_response =
     \<lparr>resp_Status = ''500 Internal Server Error'', resp_StatusCode = 500,
      resp_ContentType = ''application/json'', resp_Body = Inr ''null''\<rparr>"

text \<open>The client after an \<open>Open\<close> that parsed the base URL and whose login failed.\<close>

definition unopened_client :: Client where
  "unopened_client =
     \<lparr>Username = ''u'', Password = ''p'', BaseURL = ''https://h/v1/'', UserAgent = [],
      Timeout = 30, InsecureSkipVerify = False, prefix = ''/v1/'',
      url = Some \<lparr>Scheme = ''https'', Opaque = [], User = [], Host = ''h'', Path = [],
                  RawPath = [], RawQuery = [], Fragment = []\<rparr>,
      token = [], validUntil = zero_Time, opened = False\<rparr>"

text \<open>The requests that \<open>build_request\<close> makes for the login resource and for \<^verbatim>\<open>platform/\<close>.\<close>

definition demo_headers :: "string \<rightharpoonup> string" where
  "demo_headers =
     [''User-Agent'' \<mapsto> ''StratumClient/1.0'', ''Content-Type'' \<mapsto> ''application/json'',
      ''Accept'' \<mapsto> ''application/json'']"

definition login_request :: request where
  "login_request =
     \<lparr>req_Method = ''GET'', req_URL = ''https://h/login/v1'', req_Body = [],
      req_Header = demo_headers\<rparr>"

definition platform_request :: request where
  "platform_request =
     \<lparr>req_Method = ''GET'', req_URL = ''https://h/v1/platform/'', req_Body = [],
      req_Header = demo_headers\<rparr>"

text \<open>A server whose login response grants a lifetime of 9223372037 seconds.\<close>

definition long_login_response :: response where
  "long_login_response =
     \<lparr>resp_Status = ''200 OK'', resp_StatusCode = 200,
      resp_ContentType = ''application/json'', resp_Body = Inr login_body_long\<rparr>"

definition long_world :: world where
  "long_world = demo_world 1000\<lparr>transport := fixed_server long_login_response\<rparr>"



section \<open>Properties of the dispatch\<close>

text \<open>
  C3. A call with a payload whose verb is GET after \<^verbatim>\<open>strings.ToUpper\<close> returns the
  error "post data not allowed with method GET" at once: the client and the world are
  returned as they were, so nothing was sent, the clock was not read and no credential
  was refreshed.
\<close>

theorem Call_payload_with_GET_rejected:
  assumes "data \<noteq> None" and "strings_ToUpper L method = ''GET''"
  shows "Call L method query data c w =
           (Inl (Errorf ''post data not allowed with method GET''), c, w)"
  using assms by (simp add: Call.simps)

theorem Call_payload_with_GET_rejected_witness:
  "Some (Bytes ''{}'') \<noteq> (None :: string payload option)
   \<and> strings_ToUpper demo_lib ''get'' = ''GET''
   \<and> Call demo_lib ''get'' ''platform/'' (Some (Bytes ''{}'')) (opened_client 0) (demo_world 0) =
       (Inl (Errorf ''post data not allowed with method GET''), opened_client 0, demo_world 0)"
proof -
  have up: "strings_ToUpper demo_lib ''get'' = ''GET''"
    by code_simp
  have pl: "Some (Bytes ''{}'') \<noteq> (None :: string payload option)"
    by simp
  show ?thesis
    using up pl Call_payload_with_GET_rejected [OF pl up] by simp
qed

section \<open>Classification of responses\<close>

lemma roundtrip_response:
  assumes "transport w (length (sent w)) (Timeout c) (InsecureSkipVerify c) req = Inr resp"
    and "resp_Body resp = Inr body"
  shows "roundtrip L c req w = (classify L resp body, w\<lparr>sent := sent w @ [req]\<rparr>)"
  using assms by (simp add: roundtrip_def client_Do_def)

lemma classify_success_iff:
  "classify L resp body = Inr b \<longleftrightarrow>
     (resp_StatusCode resp = 200 \<or> resp_StatusCode resp = 201)
     \<and> resp_ContentType resp = ''application/json'' \<and> b = body"
  by (auto simp: classify_def Let_def split: sum.splits option.splits)

lemma classify_not_json:
  assumes "resp_ContentType resp \<noteq> ''application/json''"
  shows "classify L resp body =
           (if resp_StatusCode resp = 200 \<or> resp_StatusCode resp = 201
            then Inl (Errorf (''server responded with unknown Content-Type: ''
                              @ resp_ContentType resp))
            else Inl (Errorf (resp_Status resp)))"
  using assms by (simp add: classify_def Let_def)

text \<open>
  C10. The content type is compared with \<^verbatim>\<open>"application/json"\<close> by string equality. A
  response whose content type is that string followed by parameters is classified as
  not JSON: with status 200 (or 201) the dispatch returns the error "server responded
  with unknown Content-Type: ..." and not the body; with any other status it returns
  the status line as an error.
\<close>

theorem content_type_with_parameters_is_not_json:
  assumes "transport w (length (sent w)) (Timeout c) (InsecureSkipVerify c) req = Inr resp"
    and "resp_Body resp = Inr body"
    and "resp_ContentType resp = ''application/json'' @ params"
    and "params \<noteq> []"
  shows "fst (roundtrip L c req w) =
           (if resp_StatusCode resp = 200 \<or> resp_StatusCode resp = 201
            then Inl (Errorf (''server responded with unknown Content-Type: ''
                              @ ''application/json'' @ params))
            else Inl (Errorf (resp_Status resp)))"
proof -
  from assms(3,4) have "resp_ContentType resp \<noteq> ''application/json''"
    by simp
  then show ?thesis
    using assms(3) by (simp add: roundtrip_response [OF assms(1,2)] classify_not_json)
qed

theorem content_type_with_parameters_is_not_json_witness:
  "fst (roundtrip demo_lib (opened_client 0) platform_request
          ((demo_world 0)\<lparr>transport := fixed_server charset_response\<rparr>)) =
     Inl (Errorf ''server responded with unknown Content-Type: application/json; charset=utf-8'')"
  using content_type_with_parameters_is_not_json
          [of "(demo_world 0)\<lparr>transport := fixed_server charset_response\<rparr>"
              "opened_client 0" platform_request charset_response "''[]''"
              "''; charset=utf-8''" demo_lib]
  by (simp add: fixed_server_def charset_response_def)

text \<open>
  C7, as stated: every response with a status from 200 to 299 and a content type other
  than JSON yields the error about the unexpected content type. The code tests the status
  against 200 and 201 only: a 204 response without content type yields the status line as
  the error instead.
\<close>

theorem no_content_yields_status_line_counterexample:
  "200 \<le> resp_StatusCode no_content_response \<and> resp_StatusCode no_content_response < 300
   \<and> resp_ContentType no_content_response \<noteq> ''application/json''
   \<and> fst (roundtrip demo_lib (opened_client 0) platform_request
              ((demo_world 0)\<lparr>transport := fixed_server no_content_response\<rparr>)) =
         Inl (Errorf ''204 No Content'')
   \<and> fst (roundtrip demo_lib (opened_client 0) platform_request
              ((demo_world 0)\<lparr>transport := fixed_server no_content_response\<rparr>)) \<noteq>
         Inl (Errorf (''server responded with unknown Content-Type: ''
                      @ resp_ContentType no_content_response))"
  by (simp add: roundtrip_def client_Do_def demo_world_def fixed_server_def
        no_content_response_def classify_def)

text \<open>
  C7, amended: a response with status 200 or 201 and a content type other than
  \<^verbatim>\<open>"application/json"\<close> yields the error "server responded with unknown Content-Type:
  ..."; a response with any other status from 200 to 299 and such a content type yields
  the status line as the error. Neither is returned as a success.
\<close>

theorem success_status_without_json_is_error:
  assumes "transport w (length (sent w)) (Timeout c) (InsecureSkipVerify c) req = Inr resp"
    and "resp_Body resp = Inr body"
    and "200 \<le> resp_StatusCode resp" and "resp_StatusCode resp < 300"
    and "resp_ContentType resp \<noteq> ''application/json''"
  shows "fst (roundtrip L c req w) =
           (if resp_StatusCode resp = 200 \<or> resp_StatusCode resp = 201
            then Inl (Errorf (''server responded with unknown Content-Type: ''
                              @ resp_ContentType resp))
            else Inl (Errorf (resp_Status resp)))
         \<and> (\<forall>b. fst (roundtrip L c req w) \<noteq> Inr b)"
  using assms(5) by (simp add: roundtrip_response [OF assms(1,2)] classify_not_json)

theorem success_status_without_json_is_error_witness:
  "fst (roundtrip demo_lib (opened_client 0) platform_request
          ((demo_world 0)\<lparr>transport := fixed_server charset_response\<rparr>)) =
     Inl (Errorf ''server responded with unknown Content-Type: application/json; charset=utf-8'')
   \<and> (\<forall>b. fst (roundtrip demo_lib (opened_client 0) platform_request
                 ((demo_world 0)\<lparr>transport := fixed_server charset_response\<rparr>)) \<noteq> Inr b)"
  using success_status_without_json_is_error
          [of "(demo_world 0)\<lparr>transport := fixed_server charset_response\<rparr>"
              "opened_client 0" platform_request charset_response "''[]''" demo_lib]
  by (simp add: fixed_server_def charset_response_def)

text \<open>
  The error branch of the classification, for a body that \<^verbatim>\<open>json.Unmarshal\<close> decodes
  into a record or rejects, and for a content type other than JSON.
\<close>

lemma classify_error_status:
  assumes "\<not> (resp_StatusCode resp = 200 \<or> resp_StatusCode resp = 201)"
  shows "classify L resp body =
           (if resp_ContentType resp = ''application/json'' then
              (case json_Unmarshal_ErrorResponse L body of
                 Inl e \<Rightarrow> Inl e
               | Inr None \<Rightarrow> Inl NilDereference
               | Inr (Some eresp) \<Rightarrow>
                   Inl (APIError (eresp\<lparr>Status := resp_Status resp,
                                         StatusCode := resp_StatusCode resp\<rparr>)))
            else Inl (Errorf (resp_Status resp)))"
  using assms by (simp add: classify_def Let_def)

lemma classify_error_decoded:
  assumes "resp_StatusCode resp < 200 \<or> 300 \<le> resp_StatusCode resp"
    and "resp_ContentType resp = ''application/json''"
    and "json_Unmarshal_ErrorResponse L body = Inr (Some eresp)"
  shows "\<exists>e. classify L resp body = Inl (APIError e)
             \<and> StatusCode e = resp_StatusCode resp \<and> Status e = resp_Status resp
             \<and> Message e = Message eresp \<and> Backend e = Backend eresp"
proof -
  from assms(1) have "\<not> (resp_StatusCode resp = 200 \<or> resp_StatusCode resp = 201)"
    by auto
  then show ?thesis
    using assms(2,3) by (simp add: classify_error_status)
qed

lemma classify_error_undecodable:
  assumes "resp_StatusCode resp < 200 \<or> 300 \<le> resp_StatusCode resp"
    and "resp_ContentType resp = ''application/json''"
    and "json_Unmarshal_ErrorResponse L body = Inl e"
  shows "classify L resp body = Inl e"
proof -
  from assms(1) have "\<not> (resp_StatusCode resp = 200 \<or> resp_StatusCode resp = 201)"
    by auto
  then show ?thesis
    using assms(2,3) by (simp add: classify_error_status)
qed

lemma classify_error_not_json:
  assumes "resp_StatusCode resp < 200 \<or> 300 \<le> resp_StatusCode resp"
    and "resp_ContentType resp \<noteq> ''application/json''"
  shows "classify L resp body = Inl (Errorf (resp_Status resp))"
proof -
  from assms(1) have "\<not> (resp_StatusCode resp = 200 \<or> resp_StatusCode resp = 201)"
    by auto
  then show ?thesis
    using assms(2) by (simp add: classify_error_status)
qed

lemma ErrorResponse_Error_example:
  "ErrorResponse_Error
     \<lparr>Backend = Some \<lparr>SQL = [], Severity = [], Message_backend = [], Detail = [],
                         Code = ''42P01''\<rparr>,
      Message = ''no such table'', Status = ''404 Not Found'', StatusCode = 404\<rparr> =
   ''404 Not Found: no such table: code: 42P01''"
  by (simp add: ErrorResponse_Error_def)

lemma classify_error_null:
  assumes "\<not> (resp_StatusCode resp = 200 \<or> resp_StatusCode resp = 201)"
    and "resp_ContentType resp = ''application/json''"
    and "json_Unmarshal_ErrorResponse L body = Inr None"
  shows "classify L resp body = Inl NilDereference"
  using assms by (simp add: classify_error_status)

lemma classify_error_decoded_example:
  "classify demo_lib not_found_response error_body =
     Inl (APIError \<lparr>Backend = Some \<lparr>SQL = [], Severity = [], Message_backend = [],
                                         Detail = [], Code = ''42P01''\<rparr>,
                        Message = ''no such table'', Status = ''404 Not Found'',
                        StatusCode = 404\<rparr>)"
  by (simp add: classify_def not_found_response_def demo_lib_def demo_Unmarshal_ErrorResponse_def)

text \<open>
  C6. A response with status 500, content type \<^verbatim>\<open>application/json\<close> and the body
  \<^verbatim>\<open>null\<close>: \<^verbatim>\<open>json.Unmarshal(body, &eresp)\<close> returns no error and sets the pointer
  \<^verbatim>\<open>eresp\<close> to nil, and the assignment \<^verbatim>\<open>eresp.Status = resp.Status\<close> that follows
  panics. The dispatch yields neither an \<^verbatim>\<open>*ErrorResponse\<close> nor the decoder's error.
\<close>

theorem null_error_body_panics:
  "resp_StatusCode null_error_response = 500
   \<and> resp_ContentType null_error_response = ''application/json''
   \<and> json_Unmarshal_ErrorResponse demo_lib ''null'' = Inr None
   \<and> fst (roundtrip demo_lib (opened_client 0) platform_request
              ((demo_world 0)\<lparr>transport := fixed_server null_error_response\<rparr>)) =
         Inl NilDereference"
  by (simp add: roundtrip_def client_Do_def demo_world_def fixed_server_def
        null_error_response_def classify_def demo_lib_def demo_Unmarshal_ErrorResponse_def
        error_body_def)

section \<open>The address of a request\<close>









section \<open>Open\<close>

text \<open>
  C4. \<open>Open\<close> on a configuration whose user name, password or base URL is empty, or whose
  base URL parses to an empty path, returns one of the four "missing: ..." errors. The
  world is returned as it was (no request was sent), and \<open>opened\<close>, \<open>token\<close> and
  \<open>validUntil\<close> are what they were: a session that was not opened is still not
  opened and holds no more of a credential than before.
\<close>

theorem Open_rejects_incomplete_config:
  assumes "Username c = [] \<or> Password c = [] \<or> BaseURL c = []
           \<or> (\<exists>u. url_Parse L (BaseURL c) = Inr u \<and> Path u = [])"
  shows "\<exists>e c'. Open L c w = (Some e, c', w)
           \<and> e \<in> {Errorf ''missing: Username'', Errorf ''missing: Password'',
                    Errorf ''missing: BaseURL'', Errorf ''missing: path part in BaseURL''}
           \<and> opened c' = opened c \<and> token c' = token c \<and> validUntil c' = validUntil c"
  using assms by (auto simp: Open_def Let_def)

theorem Open_rejects_incomplete_config_witness:
  "\<not> opened (fresh_client\<lparr>BaseURL := ''https://h''\<rparr>)
   \<and> (\<exists>c'. Open demo_lib (fresh_client\<lparr>BaseURL := ''https://h''\<rparr>) (demo_world 0) =
             (Some (Errorf ''missing: path part in BaseURL''), c', demo_world 0)
           \<and> \<not> opened c' \<and> token c' = [] \<and> validUntil c' = zero_Time)"
proof -
  have "\<exists>u. url_Parse demo_lib (BaseURL (fresh_client\<lparr>BaseURL := ''https://h''\<rparr>)) = Inr u
             \<and> Path u = []"
    by (simp add: demo_lib_def demo_url_Parse_def)
  then have "Username (fresh_client\<lparr>BaseURL := ''https://h''\<rparr>) = []
             \<or> Password (fresh_client\<lparr>BaseURL := ''https://h''\<rparr>) = []
             \<or> BaseURL (fresh_client\<lparr>BaseURL := ''https://h''\<rparr>) = []
             \<or> (\<exists>u. url_Parse demo_lib (BaseURL (fresh_client\<lparr>BaseURL := ''https://h''\<rparr>)) = Inr u
                     \<and> Path u = [])"
    by blast
  from Open_rejects_incomplete_config [OF this, of "demo_world 0"]
  obtain e c' where
    r: "Open demo_lib (fresh_client\<lparr>BaseURL := ''https://h''\<rparr>) (demo_world 0) = (Some e, c', demo_world 0)"
       "opened c' = opened (fresh_client\<lparr>BaseURL := ''https://h''\<rparr>)"
       "token c' = token (fresh_client\<lparr>BaseURL := ''https://h''\<rparr>)"
       "validUntil c' = validUntil (fresh_client\<lparr>BaseURL := ''https://h''\<rparr>)"
    by blast
  have "fst (Open demo_lib (fresh_client\<lparr>BaseURL := ''https://h''\<rparr>) (demo_world 0)) =
          Some (Errorf ''missing: path part in BaseURL'')"
    by (simp add: Open_def fresh_client_def demo_lib_def demo_url_Parse_def Let_def)
  with r show ?thesis
    by (simp add: fresh_client_def)
qed

section \<open>Calls on a session that is not opened\<close>

lemma Call_past_payload_check:
  assumes "\<not> (data \<noteq> None \<and> strings_ToUpper L method = ''GET'')"
  shows "Call L method query data c w =
     (case build_request L c (strings_ToUpper L method) query data of
        Inl e \<Rightarrow> (Inl e, c, w)
      | Inr req \<Rightarrow>
          if query = ''login/v1'' \<and> strings_ToUpper L method = ''GET'' then
            (case roundtrip L c
                    (Header_Set req ''Authorization'' (basic_auth c))
                    w of
               (r, w') \<Rightarrow> (r, c, w'))
          else
            (case token_stale c w of
               (True, w1) \<Rightarrow>
                 (case login L (c\<lparr>token := [], validUntil := zero_Time\<rparr>) w1 of
                    (Some e, c2, w2) \<Rightarrow> (Inl e, c2, w2)
                  | (None, c2, w2) \<Rightarrow>
                      (case roundtrip L c2
                              (Header_Set req ''Authorization'' (bearer_auth c2)) w2 of
                         (r, w3) \<Rightarrow> (r, c2, w3)))
             | (False, w1) \<Rightarrow>
                 (case roundtrip L c
                         (Header_Set req ''Authorization'' (bearer_auth c)) w1 of
                    (r, w3) \<Rightarrow> (r, c, w3))))"
  using assms by (simp only: Call.simps Let_def if_False)

text \<open>
  The payload check comes before the test of \<open>opened\<close>: a GET with a payload on a
  session that is not opened fails with the payload error.
\<close>

lemma payload_check_precedes_opened_check:
  "\<not> opened unopened_client \<and> ''platform/'' \<noteq> ''login/v1''
   \<and> fst (Call demo_lib ''GET'' ''platform/'' (Some (Bytes ''{}'')) unopened_client (demo_world 0)) =
        Inl (Errorf ''post data not allowed with method GET'')
   \<and> fst (Call demo_lib ''GET'' ''platform/'' (Some (Bytes ''{}'')) unopened_client (demo_world 0)) \<noteq>
        Inl (Errorf ''config not opened with Open()'')"
  by (simp add: Call.simps unopened_client_def strings_ToUpper_def ascii_upper_def
        is_ascii_lower_def)

text \<open>
  Where \<open>Open\<close> has parsed the base URL and then failed, \<^verbatim>\<open>c.url\<close> is set and the test
  of \<open>opened\<close> is reached: every call for a resource other than the login resource that
  passes the payload check fails with "config not opened with Open()"; the client and
  the world are returned as they were, so no request was sent.
\<close>

lemma Call_after_failed_Open_rejected:
  assumes "\<not> opened c" and "query \<noteq> ''login/v1''" and "url c = Some u"
    and "\<not> (data \<noteq> None \<and> strings_ToUpper L method = ''GET'')"
  shows "Call L method query data c w =
           (Inl (Errorf ''config not opened with Open()''), c, w)"
proof -
  have "build_request L c (strings_ToUpper L method) query data =
          Inl (Errorf ''config not opened with Open()'')"
    using assms(1-3) by (simp add: build_request_def target_address_def Let_def)
  then show ?thesis
    by (simp add: Call_past_payload_check [OF assms(4)])
qed

lemma Call_after_failed_Open_rejected_example:
  "\<not> opened unopened_client
   \<and> Call demo_lib ''POST'' ''platform/'' (Some (Bytes ''{}'')) unopened_client (demo_world 0) =
       (Inl (Errorf ''config not opened with Open()''), unopened_client, demo_world 0)"
proof -
  have o: "\<not> opened unopened_client"
    by (simp add: unopened_client_def)
  have q: "''platform/'' \<noteq> ''login/v1''"
    by simp
  have u: "url unopened_client = Some (the (url unopened_client))"
    by (simp add: unopened_client_def)
  have m: "\<not> (Some (Bytes ''{}'') \<noteq> (None :: string payload option)
              \<and> strings_ToUpper demo_lib ''POST'' = ''GET'')"
    by (simp add: strings_ToUpper_def ascii_upper_def is_ascii_lower_def)
  show ?thesis
    using o Call_after_failed_Open_rejected [OF o q u m, of "demo_world 0"] by simp
qed

text \<open>
  Where \<^verbatim>\<open>c.url\<close> is nil, line 241 panics before the test of \<open>opened\<close> is reached.
\<close>

lemma Call_without_Open_panics:
  assumes "url c = None"
    and "\<not> (data \<noteq> None \<and> strings_ToUpper L method = ''GET'')"
  shows "Call L method query data c w = (Inl NilDereference, c, w)"
proof -
  have "build_request L c (strings_ToUpper L method) query data = Inl NilDereference"
    using assms(1) by (simp add: build_request_def target_address_def)
  then show ?thesis
    by (simp add: Call_past_payload_check [OF assms(2)])
qed

text \<open>
  C8. A client whose \<open>Open\<close> was never called is not opened, and its \<^verbatim>\<open>c.url\<close> is
  nil. A call for \<^verbatim>\<open>platform/\<close> on it does not fail with "config not opened with
  Open()": \<^verbatim>\<open>c.url.String()\<close> on line 241 panics before the test of \<open>opened\<close> on line
  244 is reached. No request is sent.
\<close>

theorem never_opened_client_panics:
  "url fresh_client = None \<and> \<not> opened fresh_client \<and> ''platform/'' \<noteq> ''login/v1''
   \<and> Call demo_lib ''GET'' ''platform/'' None fresh_client (demo_world 0) =
       (Inl NilDereference, fresh_client, demo_world 0)
   \<and> fst (Call demo_lib ''GET'' ''platform/'' None fresh_client (demo_world 0)) \<noteq>
       Inl (Errorf ''config not opened with Open()'')"
proof -
  have u: "url fresh_client = None"
    by (simp add: fresh_client_def)
  have m: "\<not> ((None :: string payload option) \<noteq> None \<and> strings_ToUpper demo_lib ''GET'' = ''GET'')"
    by simp
  show ?thesis
    using u by (simp add: Call_without_Open_panics [OF u m]) (simp add: fresh_client_def)
qed

section \<open>Login and the refresh of the credential\<close>

lemma roundtrip_world:
  assumes "roundtrip L c req w = (r, w')"
  shows "w' = w\<lparr>sent := sent w @ [req]\<rparr>"
  using assms by (auto simp: roundtrip_def client_Do_def split: sum.splits)

lemma strings_ToUpper_GET: "strings_ToUpper L ''GET'' = ''GET''"
  by (simp add: strings_ToUpper_def ascii_upper_def is_ascii_lower_def)

lemma Call_login_resource:
  "Call L ''GET'' ''login/v1'' None c w =
     (case build_request L c ''GET'' ''login/v1'' None of
        Inl e \<Rightarrow> (Inl e, c, w)
      | Inr req \<Rightarrow>
          (case roundtrip L c (Header_Set req ''Authorization'' (basic_auth c)) w of
             (r, w') \<Rightarrow> (r, c, w')))"
  by (simp add: Call_past_payload_check strings_ToUpper_GET split: sum.splits)

lemma login_failure_client:
  assumes "login L c w = (Some e, c', w')"
  shows "c' = c"
  using assms
  by (auto simp: login.simps Call_login_resource time_Now_def
           split: sum.splits option.splits prod.splits)

lemma login_success:
  assumes "login L c w = (None, c', w')"
  shows "\<exists>lreq body resp w1.
           build_request L c ''GET'' ''login/v1'' None = Inr lreq
           \<and> w1 = w\<lparr>sent := sent w @ [Header_Set lreq ''Authorization'' (basic_auth c)]\<rparr>
           \<and> roundtrip L c (Header_Set lreq ''Authorization'' (basic_auth c)) w = (Inr body, w1)
           \<and> json_Unmarshal_LoginResponse L body = Inr (Some resp)
           \<and> c' = c\<lparr>token := AccessToken resp,
                      validUntil := Time_Add_seconds (clock w1 (reads w1)) (ExpiresIn resp)\<rparr>
           \<and> w' = w1\<lparr>reads := Suc (reads w1)\<rparr>"
proof -
  from assms obtain lreq where lreq: "build_request L c ''GET'' ''login/v1'' None = Inr lreq"
    by (auto simp: login.simps Call_login_resource split: sum.splits)
  let ?q = "Header_Set lreq ''Authorization'' (basic_auth c)"
  obtain r w1 where rt: "roundtrip L c ?q w = (r, w1)"
    by (cases "roundtrip L c ?q w")
  then have w1: "w1 = w\<lparr>sent := sent w @ [?q]\<rparr>"
    by (rule roundtrip_world)
  from assms lreq rt obtain body where body: "r = Inr body"
    by (auto simp: login.simps Call_login_resource split: sum.splits)
  from assms lreq rt body obtain resp where resp: "json_Unmarshal_LoginResponse L body = Inr (Some resp)"
    by (auto simp: login.simps Call_login_resource split: sum.splits option.splits)
  from assms lreq rt body resp
  have "c' = c\<lparr>token := AccessToken resp,
               validUntil := Time_Add_seconds (clock w1 (reads w1)) (ExpiresIn resp)\<rparr>"
    and "w' = w1\<lparr>reads := Suc (reads w1)\<rparr>"
    by (auto simp: login.simps Call_login_resource time_Now_def)
  with lreq w1 rt body resp show ?thesis
    by blast
qed

lemma Call_refresh:
  assumes "\<not> (query = ''login/v1'' \<and> strings_ToUpper L method = ''GET'')"
    and "\<not> (data \<noteq> None \<and> strings_ToUpper L method = ''GET'')"
    and "build_request L c (strings_ToUpper L method) query data = Inr req"
    and "fst (token_stale c w)"
  shows "Call L method query data c w =
     (case login L (c\<lparr>token := [], validUntil := zero_Time\<rparr>) (snd (token_stale c w)) of
        (Some e, c2, w2) \<Rightarrow> (Inl e, c2, w2)
      | (None, c2, w2) \<Rightarrow>
          (case roundtrip L c2 (Header_Set req ''Authorization'' (bearer_auth c2)) w2 of
             (r, w3) \<Rightarrow> (r, c2, w3)))"
  using assms(1,3,4)
  by (cases "token_stale c w") (auto simp: Call_past_payload_check [OF assms(2)])

lemma Call_no_refresh:
  assumes "\<not> (query = ''login/v1'' \<and> strings_ToUpper L method = ''GET'')"
    and "\<not> (data \<noteq> None \<and> strings_ToUpper L method = ''GET'')"
    and "build_request L c (strings_ToUpper L method) query data = Inr req"
    and "\<not> fst (token_stale c w)"
  shows "Call L method query data c w =
     (case roundtrip L c (Header_Set req ''Authorization'' (bearer_auth c)) (snd (token_stale c w)) of
        (r, w3) \<Rightarrow> (r, c, w3))"
  using assms(1,3,4)
  by (cases "token_stale c w") (auto simp: Call_past_payload_check [OF assms(2)])

lemma token_stale_iff:
  "fst (token_stale c w) \<longleftrightarrow> token c = [] \<or> validUntil c < clock w (reads w)"
  by (simp add: token_stale_def time_Now_def)

lemma token_stale_world:
  "snd (token_stale c w) = (if token c = [] then w else w\<lparr>reads := Suc (reads w)\<rparr>)"
  by (simp add: token_stale_def time_Now_def)

lemma seconds_in_range:
  assumes "- 9223372036 \<le> sint n" and "sint n \<le> 9223372036"
  shows "Time_Add_seconds t n = t + sint n * 1000000000"
proof -
  have s: "sint time_Second = 1000000000"
    by (simp add: time_Second_def)
  have "sint (n * time_Second) = signed_take_bit 63 (sint n * sint time_Second)"
    by (simp add: sint_word_ariths)
  also have "\<dots> = sint n * 1000000000"
    unfolding s using assms by (intro signed_take_bit_int_eq_self) simp_all
  finally show ?thesis by (simp add: Time_Add_seconds_def)
qed

lemma token_stale_sent: "sent (snd (token_stale c w)) = sent w"
  by (simp add: token_stale_world)

lemma build_request_cleared:
  "build_request L (c\<lparr>token := [], validUntil := zero_Time\<rparr>) m q d = build_request L c m q d"
  by (simp add: build_request_def target_address_def Let_def
        cong: option.case_cong sum.case_cong if_cong)

lemma basic_auth_cleared:
  "basic_auth (c\<lparr>token := [], validUntil := zero_Time\<rparr>) = basic_auth c"
  by (simp add: basic_auth_def)

lemma login_failure_sent:
  assumes "login L c w = (Some e, c', w')"
  shows "sent w' = sent w
         \<or> (\<exists>lreq. build_request L c ''GET'' ''login/v1'' None = Inr lreq
               \<and> sent w' = sent w @ [Header_Set lreq ''Authorization'' (basic_auth c)])"
proof (cases "build_request L c ''GET'' ''login/v1'' None")
  case (Inl e')
  with assms show ?thesis
    by (simp add: login.simps Call_login_resource)
next
  case (Inr lreq)
  let ?q = "Header_Set lreq ''Authorization'' (basic_auth c)"
  obtain r w1 where rt: "roundtrip L c ?q w = (r, w1)"
    by (cases "roundtrip L c ?q w")
  then have w1: "w1 = w\<lparr>sent := sent w @ [?q]\<rparr>"
    by (rule roundtrip_world)
  from assms Inr rt have "w' = w1"
    by (auto simp: login.simps Call_login_resource time_Now_def
             split: sum.splits option.splits)
  with w1 Inr show ?thesis by simp
qed

lemma Call_refresh_observed:
  assumes nl: "\<not> (query = ''login/v1'' \<and> strings_ToUpper L method = ''GET'')"
    and np: "\<not> (data \<noteq> None \<and> strings_ToUpper L method = ''GET'')"
    and br: "build_request L c (strings_ToUpper L method) query data = Inr req"
    and st: "fst (token_stale c w)"
  shows "\<exists>r c2 w3. Call L method query data c w = (r, c2, w3) \<and>
           ((\<exists>lreq w2.
               build_request L c ''GET'' ''login/v1'' None = Inr lreq
               \<and> login L (c\<lparr>token := [], validUntil := zero_Time\<rparr>) (snd (token_stale c w)) =
                   (None, c2, w2)
               \<and> sent w3 = sent w @ [Header_Set lreq ''Authorization'' (basic_auth c),
                                      Header_Set req ''Authorization'' (bearer_auth c2)])
            \<or> ((\<exists>e. r = Inl e
                     \<and> login L (c\<lparr>token := [], validUntil := zero_Time\<rparr>) (snd (token_stale c w)) =
                         (Some e, c2, w3))
                \<and> c2 = c\<lparr>token := [], validUntil := zero_Time\<rparr>
                \<and> (sent w3 = sent w
                    \<or> (\<exists>lreq. build_request L c ''GET'' ''login/v1'' None = Inr lreq
                          \<and> sent w3 = sent w @ [Header_Set lreq ''Authorization'' (basic_auth c)]))))"
proof -
  let ?c0 = "c\<lparr>token := [], validUntil := zero_Time\<rparr>"
  let ?w1 = "snd (token_stale c w)"
  obtain eo c2 w2 where lg: "login L ?c0 ?w1 = (eo, c2, w2)"
    by (cases "login L ?c0 ?w1")
  show ?thesis
  proof (cases eo)
    case (Some e)
    with lg have call: "Call L method query data c w = (Inl e, c2, w2)"
      by (simp add: Call_refresh [OF nl np br st])
    from lg Some have c2: "c2 = ?c0"
      by (auto dest: login_failure_client)
    from lg Some have "sent w2 = sent ?w1
         \<or> (\<exists>lreq. build_request L ?c0 ''GET'' ''login/v1'' None = Inr lreq
               \<and> sent w2 = sent ?w1 @ [Header_Set lreq ''Authorization'' (basic_auth ?c0)])"
      by (auto dest: login_failure_sent)
    then have "sent w2 = sent w
         \<or> (\<exists>lreq. build_request L c ''GET'' ''login/v1'' None = Inr lreq
               \<and> sent w2 = sent w @ [Header_Set lreq ''Authorization'' (basic_auth c)])"
      by (simp add: token_stale_sent build_request_cleared basic_auth_cleared)
    with call c2 lg Some show ?thesis
      by blast
  next
    case None
    with lg have lg': "login L ?c0 ?w1 = (None, c2, w2)"
      by simp
    from login_success [OF lg'] obtain lreq where
      lreq: "build_request L c ''GET'' ''login/v1'' None = Inr lreq"
      and w2: "sent w2 = sent w @ [Header_Set lreq ''Authorization'' (basic_auth c)]"
      by (auto simp: token_stale_sent build_request_cleared basic_auth_cleared)
    let ?q = "Header_Set req ''Authorization'' (bearer_auth c2)"
    obtain r w3 where rt: "roundtrip L c2 ?q w2 = (r, w3)"
      by (cases "roundtrip L c2 ?q w2")
    then have "w3 = w2\<lparr>sent := sent w2 @ [?q]\<rparr>"
      by (rule roundtrip_world)
    with w2 have w3: "sent w3 = sent w @ [Header_Set lreq ''Authorization'' (basic_auth c), ?q]"
      by simp
    from lg' rt have "Call L method query data c w = (r, c2, w3)"
      by (simp add: Call_refresh [OF nl np br st])
    with lreq lg' w3 show ?thesis
      by blast
  qed
qed

lemma Call_no_refresh_observed:
  assumes nl: "\<not> (query = ''login/v1'' \<and> strings_ToUpper L method = ''GET'')"
    and np: "\<not> (data \<noteq> None \<and> strings_ToUpper L method = ''GET'')"
    and br: "build_request L c (strings_ToUpper L method) query data = Inr req"
    and st: "\<not> fst (token_stale c w)"
  shows "\<exists>r w'. Call L method query data c w = (r, c, w')
           \<and> sent w' = sent w @ [Header_Set req ''Authorization'' (bearer_auth c)]"
proof -
  let ?q = "Header_Set req ''Authorization'' (bearer_auth c)"
  obtain r w' where rt: "roundtrip L c ?q (snd (token_stale c w)) = (r, w')"
    by (cases "roundtrip L c ?q (snd (token_stale c w))")
  then have "w' = (snd (token_stale c w))\<lparr>sent := sent (snd (token_stale c w)) @ [?q]\<rparr>"
    by (rule roundtrip_world)
  then have "sent w' = sent w @ [?q]"
    by (simp add: token_stale_sent)
  moreover from rt have "Call L method query data c w = (r, c, w')"
    by (simp add: Call_no_refresh [OF nl np br st])
  ultimately show ?thesis by blast
qed

subsection \<open>What login and Call leave alone\<close>

text \<open>
  Only \<open>Open\<close> writes \<open>url\<close>, \<open>prefix\<close> and \<open>opened\<close>: a session that \<open>Open\<close> has
  opened has its \<open>url\<close> set and stays that way through every call.
\<close>

lemma login_preserves_config:
  assumes "login L c w = (r, c', w')"
  shows "url c' = url c \<and> prefix c' = prefix c \<and> opened c' = opened c"
proof (cases r)
  case None
  with assms login_success [of L c w c' w'] show ?thesis by auto
next
  case (Some e)
  with assms login_failure_client [of L c w e c' w'] show ?thesis by simp
qed

lemma Call_preserves_config:
  assumes "Call L method query data c w = (r, c', w')"
  shows "url c' = url c \<and> prefix c' = prefix c \<and> opened c' = opened c"
proof (cases "data \<noteq> None \<and> strings_ToUpper L method = ''GET''")
  case True
  with assms show ?thesis by (simp add: Call.simps)
next
  case False
  show ?thesis
  proof (cases "build_request L c (strings_ToUpper L method) query data")
    case (Inl e)
    with assms show ?thesis
      by (simp add: Call_past_payload_check [OF False])
  next
    case (Inr req)
    show ?thesis
    proof (cases "query = ''login/v1'' \<and> strings_ToUpper L method = ''GET''")
      case True
      with assms Inr show ?thesis
        by (auto simp: Call_past_payload_check [OF False] split: prod.splits)
    next
      case nl: False
      show ?thesis
      proof (cases "fst (token_stale c w)")
        case True
        obtain eo c2 w2 where lg:
          "login L (c\<lparr>token := [], validUntil := zero_Time\<rparr>) (snd (token_stale c w)) = (eo, c2, w2)"
          by (cases "login L (c\<lparr>token := [], validUntil := zero_Time\<rparr>) (snd (token_stale c w))")
        from login_preserves_config [OF lg]
        have "url c2 = url c \<and> prefix c2 = prefix c \<and> opened c2 = opened c"
          by simp
        moreover from assms lg have "c' = c2"
          by (auto simp: Call_refresh [OF nl False Inr True] split: option.splits prod.splits)
        ultimately show ?thesis by simp
      next
        case st: False
        with assms show ?thesis
          by (auto simp: Call_no_refresh [OF nl False Inr st] split: prod.splits)
      qed
    qed
  qed
qed

lemma Open_success_state:
  assumes "Open L c w = (None, c', w')"
  shows "opened c' \<and> (\<exists>u. url_Parse L (BaseURL c) = Inr u \<and> Path u \<noteq> []
           \<and> url c' = Some (u\<lparr>Path := []\<rparr>) \<and> prefix c' = Path u)"
proof -
  from assms obtain u where u: "url_Parse L (BaseURL c) = Inr u" "Path u \<noteq> []"
    by (auto simp: Open_def Let_def split: if_splits sum.splits)
  let ?c = "(if Timeout c = 0 then c\<lparr>Timeout := 30\<rparr> else c)
              \<lparr>url := Some u, prefix := Path u, url := Some (u\<lparr>Path := []\<rparr>)\<rparr>"
  obtain eo c1 w1 where lg: "login L ?c w = (eo, c1, w1)"
    by (cases "login L ?c w")
  from login_preserves_config [OF lg]
  have cfg: "url c1 = Some (u\<lparr>Path := []\<rparr>) \<and> prefix c1 = Path u"
    by simp
  from assms u lg have "eo = None \<and> c' = c1\<lparr>opened := True\<rparr>"
    by (auto simp: Open_def Let_def split: if_splits option.splits)
  with cfg u show ?thesis by auto
qed

subsection \<open>The example instances, evaluated\<close>

lemma demo_build_login:
  "build_request demo_lib (opened_client E) ''GET'' ''login/v1'' None = Inr login_request"
  by (simp add: build_request_def target_address_def opened_client_def demo_lib_def
        demo_URL_String_def demo_url_Parse_def strings_TrimRight_def strings_TrimLeft_def
        encode_payload_def demo_NewRequest_def Header_Set_def login_request_def demo_headers_def)

lemma demo_build_platform:
  "build_request demo_lib (opened_client E) ''GET'' ''platform/'' None = Inr platform_request"
  by (simp add: build_request_def target_address_def opened_client_def demo_lib_def
        demo_URL_String_def demo_url_Parse_def strings_TrimRight_def strings_TrimLeft_def
        encode_payload_def demo_NewRequest_def Header_Set_def platform_request_def demo_headers_def)

lemma demo_basic_auth: "basic_auth (opened_client E) = ''Basic dTpw''"
  by (simp add: basic_auth_def opened_client_def base64_EncodeToString_def encodeStd_def)

lemma demo_decode_login:
  "json_Unmarshal_LoginResponse demo_lib login_body =
     Inr (Some \<lparr>AccessToken = ''abc'', ExpiresIn = 60, TokenType = ''bearer''\<rparr>)"
  by (simp add: demo_lib_def demo_Unmarshal_LoginResponse_def)

lemma demo_Call_login:
  "Call demo_lib ''GET'' ''login/v1'' None (opened_client E) (demo_world T\<lparr>reads := n, sent := rs\<rparr>) =
     (Inr login_body, opened_client E,
      demo_world T\<lparr>reads := n,
                    sent := rs @ [Header_Set login_request ''Authorization'' ''Basic dTpw'']\<rparr>)"
  by (simp add: Call_login_resource demo_build_login demo_basic_auth
        roundtrip_def client_Do_def demo_world_def demo_server_def Header_Set_def
        login_request_def classify_def)

lemma opened_client_update:
  "(opened_client E)\<lparr>token := ''abc'', validUntil := E'\<rparr> = opened_client E'"
  by (simp add: opened_client_def)

lemma demo_login:
  "login demo_lib (opened_client E) (demo_world T\<lparr>reads := n, sent := rs\<rparr>) =
     (None, opened_client (T + int n * 61000000000 + 60000000000),
      demo_world T\<lparr>reads := Suc n,
                    sent := rs @ [Header_Set login_request ''Authorization'' ''Basic dTpw'']\<rparr>)"
  by (simp add: login.simps demo_Call_login demo_decode_login time_Now_def
        Time_Add_seconds_def time_Second_def opened_client_update)
    (simp add: demo_world_def)

lemma demo_not_login: "\<not> (''platform/'' = ''login/v1'' \<and> strings_ToUpper demo_lib ''GET'' = ''GET'')"
  by simp

lemma demo_no_payload: "\<not> ((None :: string payload option) \<noteq> None \<and> strings_ToUpper demo_lib ''GET'' = ''GET'')"
  by simp

lemma demo_build_platform_upper:
  "build_request demo_lib (opened_client E) (strings_ToUpper demo_lib ''GET'') ''platform/'' None =
     Inr platform_request"
  by (simp add: strings_ToUpper_GET demo_build_platform)

lemma cleared_opened_client:
  "(opened_client E)\<lparr>token := [], validUntil := zero_Time\<rparr> = (opened_client E')\<lparr>token := [], validUntil := zero_Time\<rparr>"
  by (simp add: opened_client_def)

lemma demo_login_cleared:
  "login demo_lib ((opened_client E)\<lparr>token := [], validUntil := zero_Time\<rparr>)
      (demo_world T\<lparr>reads := n, sent := rs\<rparr>) =
     (None, opened_client (T + int n * 61000000000 + 60000000000),
      demo_world T\<lparr>reads := Suc n,
                    sent := rs @ [Header_Set login_request ''Authorization'' ''Basic dTpw'']\<rparr>)"
proof -
  have b: "build_request demo_lib ((opened_client E)\<lparr>token := [], validUntil := zero_Time\<rparr>)
             ''GET'' ''login/v1'' None = Inr login_request"
    by (simp add: build_request_cleared demo_build_login)
  have a: "basic_auth ((opened_client E)\<lparr>token := [], validUntil := zero_Time\<rparr>) = ''Basic dTpw''"
    by (simp add: basic_auth_cleared demo_basic_auth)
  have u: "(opened_client E)\<lparr>token := [], validUntil := zero_Time\<rparr>
             \<lparr>token := ''abc'', validUntil := E'\<rparr> = opened_client E'" for E'
    by (simp add: opened_client_def)
  have c: "Call demo_lib ''GET'' ''login/v1'' None ((opened_client E)\<lparr>token := [], validUntil := zero_Time\<rparr>)
             (demo_world T\<lparr>reads := n, sent := rs\<rparr>) =
           (Inr login_body, (opened_client E)\<lparr>token := [], validUntil := zero_Time\<rparr>,
            demo_world T\<lparr>reads := n,
                    sent := rs @ [Header_Set login_request ''Authorization'' ''Basic dTpw'']\<rparr>)"
    by (simp add: Call_login_resource b a
        roundtrip_def client_Do_def demo_world_def demo_server_def Header_Set_def
        login_request_def classify_def)
  show ?thesis
    by (simp add: login.simps c demo_decode_login time_Now_def
        Time_Add_seconds_def time_Second_def u opened_client_update)
       (simp add: demo_world_def)
qed

lemma demo_decode_login_long:
  "json_Unmarshal_LoginResponse demo_lib login_body_long =
     Inr (Some \<lparr>AccessToken = ''abc'', ExpiresIn = 9223372037, TokenType = ''bearer''\<rparr>)"
  by (simp add: demo_lib_def demo_Unmarshal_LoginResponse_def login_body_long_def login_body_def)

lemma demo_build_platform_query:
  "build_request demo_lib (opened_client E) ''GET'' ''/platform/?x=1'' None =
     Inr (platform_request\<lparr>req_URL := ''https://h/v1/platform/?x=1''\<rparr>)"
  by (simp add: build_request_def target_address_def opened_client_def demo_lib_def
        demo_URL_String_def demo_url_Parse_def strings_TrimRight_def strings_TrimLeft_def
        encode_payload_def demo_NewRequest_def Header_Set_def platform_request_def demo_headers_def)

text \<open>
  \<open>Open\<close> on a fresh client: against the example server it leaves \<open>opened_client\<close>,
  against a server that is down it leaves \<open>unopened_client\<close>.
\<close>

lemma demo_parse_BaseURL:
  "url_Parse demo_lib ''https://h/v1/'' =
     Inr \<lparr>Scheme = ''https'', Opaque = [], User = [], Host = ''h'', Path = ''/v1/'',
           RawPath = [], RawQuery = [], Fragment = []\<rparr>"
  by (simp add: demo_lib_def demo_url_Parse_def)

lemma demo_Open_prepared:
  "(fresh_client\<lparr>Timeout := 30,
      url := Some \<lparr>Scheme = ''https'', Opaque = [], User = [], Host = ''h'', Path = ''/v1/'',
           RawPath = [], RawQuery = [], Fragment = []\<rparr>, prefix := ''/v1/'',
      url := Some \<lparr>Scheme = ''https'', Opaque = [], User = [], Host = ''h'', Path = [],
           RawPath = [], RawQuery = [], Fragment = []\<rparr>\<rparr>) = unopened_client"
  by (simp add: fresh_client_def unopened_client_def)

lemma demo_build_login_unopened:
  "build_request demo_lib unopened_client ''GET'' ''login/v1'' None = Inr login_request"
  by (simp add: build_request_def target_address_def unopened_client_def demo_lib_def
        demo_URL_String_def demo_url_Parse_def strings_TrimRight_def strings_TrimLeft_def
        encode_payload_def demo_NewRequest_def Header_Set_def login_request_def demo_headers_def)

lemma demo_basic_auth_unopened: "basic_auth unopened_client = ''Basic dTpw''"
  by (simp add: basic_auth_def unopened_client_def base64_EncodeToString_def encodeStd_def)

lemma demo_login_unopened:
  "login demo_lib unopened_client (demo_world T\<lparr>reads := n, sent := rs\<rparr>) =
     (None, (opened_client (T + int n * 61000000000 + 60000000000))\<lparr>opened := False\<rparr>,
      demo_world T\<lparr>reads := Suc n,
                    sent := rs @ [Header_Set login_request ''Authorization'' ''Basic dTpw'']\<rparr>)"
proof -
  note b = demo_build_login_unopened and a = demo_basic_auth_unopened
  have c: "Call demo_lib ''GET'' ''login/v1'' None unopened_client
             (demo_world T\<lparr>reads := n, sent := rs\<rparr>) =
           (Inr login_body, unopened_client,
            demo_world T\<lparr>reads := n,
                    sent := rs @ [Header_Set login_request ''Authorization'' ''Basic dTpw'']\<rparr>)"
    by (simp add: Call_login_resource b a
        roundtrip_def client_Do_def demo_world_def demo_server_def Header_Set_def
        login_request_def classify_def)
  show ?thesis
    by (simp add: login.simps c demo_decode_login time_Now_def
        Time_Add_seconds_def time_Second_def)
       (simp add: demo_world_def unopened_client_def opened_client_def)
qed

lemma demo_Open:
  "Open demo_lib fresh_client (demo_world T) =
     (None, opened_client (T + 60000000000),
      demo_world T\<lparr>reads := 1,
                    sent := [Header_Set login_request ''Authorization'' ''Basic dTpw'']\<rparr>)"
proof -
  have w0: "demo_world T = demo_world T\<lparr>reads := 0, sent := []\<rparr>"
    by (simp add: demo_world_def)
  have f: "Username fresh_client \<noteq> [] \<and> Password fresh_client \<noteq> []
           \<and> BaseURL fresh_client = ''https://h/v1/'' \<and> Timeout fresh_client = 0"
    by (simp add: fresh_client_def)
  have "Open demo_lib fresh_client (demo_world T) =
          (case login demo_lib unopened_client (demo_world T) of
             (Some e, c', w') \<Rightarrow> (Some e, c', w')
           | (None, c', w') \<Rightarrow> (None, c'\<lparr>opened := True\<rparr>, w'))"
    by (simp add: Open_def f demo_parse_BaseURL Let_def demo_Open_prepared)
  also have "\<dots> = (None, (opened_client (T + 60000000000))\<lparr>opened := False, opened := True\<rparr>,
      demo_world T\<lparr>reads := 1,
                    sent := [Header_Set login_request ''Authorization'' ''Basic dTpw'']\<rparr>)"
    by (subst w0) (simp add: demo_login_unopened)
  finally show ?thesis
    by (simp add: opened_client_def)
qed

lemma demo_failed_Open:
  "Open demo_lib fresh_client (demo_world T\<lparr>transport := dead_server\<rparr>) =
     (Some (LibraryError ''connection refused''), unopened_client,
      demo_world T\<lparr>transport := dead_server,
                    sent := [Header_Set login_request ''Authorization'' ''Basic dTpw'']\<rparr>)"
proof -
  have f: "Username fresh_client \<noteq> [] \<and> Password fresh_client \<noteq> []
           \<and> BaseURL fresh_client = ''https://h/v1/'' \<and> Timeout fresh_client = 0"
    by (simp add: fresh_client_def)
  note b = demo_build_login_unopened and a = demo_basic_auth_unopened
  have lg: "login demo_lib unopened_client (demo_world T\<lparr>transport := dead_server\<rparr>) =
          (Some (LibraryError ''connection refused''), unopened_client,
           demo_world T\<lparr>transport := dead_server,
                    sent := [Header_Set login_request ''Authorization'' ''Basic dTpw'']\<rparr>)"
    by (simp add: login.simps Call_login_resource b a roundtrip_def client_Do_def
          demo_world_def dead_server_def)
  have "Open demo_lib fresh_client (demo_world T\<lparr>transport := dead_server\<rparr>) =
          (case login demo_lib unopened_client (demo_world T\<lparr>transport := dead_server\<rparr>) of
             (Some e, c', w') \<Rightarrow> (Some e, c', w')
           | (None, c', w') \<Rightarrow> (None, c'\<lparr>opened := True\<rparr>, w'))"
    by (simp add: Open_def f demo_parse_BaseURL Let_def demo_Open_prepared)
  then show ?thesis
    by (simp add: lg)
qed

subsection \<open>A failed refresh\<close>

text \<open>
  C9. When a call for anything but the login exchange finds the token missing or expired
  (line 285), it clears token and expiry and calls \<open>login\<close>. If that login fails, the
  call returns the login's error, and the client it leaves behind is the one it had
  with token and expiry cleared: the token is empty, the expiry is the zero instant, and
  whatever the clock shows the next call finds the token stale again. The old token is
  not kept.
\<close>

theorem failed_refresh_leaves_credential_cleared:
  assumes "\<not> (query = ''login/v1'' \<and> strings_ToUpper L method = ''GET'')"
    and "\<not> (data \<noteq> None \<and> strings_ToUpper L method = ''GET'')"
    and "build_request L c (strings_ToUpper L method) query data = Inr req"
    and "fst (token_stale c w)"
    and "login L (c\<lparr>token := [], validUntil := zero_Time\<rparr>) (snd (token_stale c w)) = (Some e, c', w')"
  shows "Call L method query data c w = (Inl e, c', w')
         \<and> token c' = [] \<and> validUntil c' = zero_Time
         \<and> c' = c\<lparr>token := [], validUntil := zero_Time\<rparr>
         \<and> fst (token_stale c' wn)"
proof -
  have "Call L method query data c w = (Inl e, c', w')"
    using assms(5) by (simp add: Call_refresh [OF assms(1-4)])
  moreover have "c' = c\<lparr>token := [], validUntil := zero_Time\<rparr>"
    using assms(5) by (rule login_failure_client)
  ultimately show ?thesis
    by (simp add: token_stale_iff)
qed

theorem failed_refresh_leaves_credential_cleared_witness:
  "Call demo_lib ''GET'' ''platform/'' None (opened_client 4)
      (demo_world 5\<lparr>transport := dead_server\<rparr>) =
     (Inl (LibraryError ''connection refused''),
      (opened_client 4)\<lparr>token := [], validUntil := zero_Time\<rparr>,
      demo_world 5\<lparr>transport := dead_server, reads := 1,
                    sent := [Header_Set login_request ''Authorization'' ''Basic dTpw'']\<rparr>)
   \<and> token ((opened_client 4)\<lparr>token := [], validUntil := zero_Time\<rparr>) = []
   \<and> validUntil ((opened_client 4)\<lparr>token := [], validUntil := zero_Time\<rparr>) = zero_Time"
proof -
  let ?w = "demo_world 5\<lparr>transport := dead_server\<rparr>"
  let ?c0 = "(opened_client 4)\<lparr>token := [], validUntil := zero_Time\<rparr>"
  have st: "fst (token_stale (opened_client 4) ?w)"
    by (simp add: token_stale_iff opened_client_def demo_world_def)
  have w: "snd (token_stale (opened_client 4) ?w) = ?w\<lparr>reads := 1\<rparr>"
    by (simp add: token_stale_world opened_client_def demo_world_def)
  have b: "build_request demo_lib ?c0 ''GET'' ''login/v1'' None = Inr login_request"
    by (simp add: build_request_cleared demo_build_login)
  have a: "basic_auth ?c0 = ''Basic dTpw''"
    by (simp add: basic_auth_cleared demo_basic_auth)
  have lg: "login demo_lib ?c0 (snd (token_stale (opened_client 4) ?w)) =
              (Some (LibraryError ''connection refused''), ?c0,
               demo_world 5\<lparr>transport := dead_server, reads := 1,
                    sent := [Header_Set login_request ''Authorization'' ''Basic dTpw'']\<rparr>)"
    unfolding w
    by (simp add: login.simps Call_login_resource b a roundtrip_def client_Do_def
          demo_world_def dead_server_def)
  show ?thesis
    using failed_refresh_leaves_credential_cleared
            [OF demo_not_login demo_no_payload demo_build_platform_upper st lg]
    by simp
qed

subsection \<open>When the credential is refreshed\<close>

text \<open>
  C1, as stated: when a token is held and the current instant is at or past the stored
  expiry, the credential is cleared and the login exchange runs before the bearer header
  is set. The code tests \<^verbatim>\<open>time.Now().After(c.validUntil)\<close>, which is false at the
  expiry instant itself: there the client is left as it was and the only request sent is
  the caller's, carrying the old token.
\<close>

theorem token_used_at_expiry_instant_counterexample:
  "token (opened_client 5) \<noteq> []
   \<and> validUntil (opened_client 5) \<le> clock (demo_world 5) (reads (demo_world 5))
   \<and> fst (snd (Call demo_lib ''GET'' ''platform/'' None (opened_client 5) (demo_world 5))) =
        opened_client 5
   \<and> sent (snd (snd (Call demo_lib ''GET'' ''platform/'' None (opened_client 5) (demo_world 5)))) =
        [Header_Set platform_request ''Authorization'' ''Bearer abc'']"
proof -
  have st: "\<not> fst (token_stale (opened_client 5) (demo_world 5))"
    by (simp add: token_stale_iff opened_client_def demo_world_def)
  have "Call demo_lib ''GET'' ''platform/'' None (opened_client 5) (demo_world 5) =
          (Inr ''[]'', opened_client 5,
           demo_world 5\<lparr>reads := 1,
                         sent := [Header_Set platform_request ''Authorization'' ''Bearer abc'']\<rparr>)"
    by (simp add: Call_no_refresh [OF demo_not_login demo_no_payload demo_build_platform_upper st]
          token_stale_world roundtrip_def client_Do_def classify_def)
       (simp add: opened_client_def demo_world_def demo_server_def Header_Set_def
          platform_request_def bearer_auth_def classify_def)
  then show ?thesis
    by (simp add: opened_client_def demo_world_def)
qed

text \<open>
  C1, amended: for every call other than the login exchange that gets as far as the
  authorization header, (1) if a token is held and the instant read from the clock is
  at or before the stored expiry, no login takes place, the client is unchanged and the
  one request sent carries the held token; (2) if no token is held or the instant is
  strictly after the stored expiry, the credential is cleared and \<open>login\<close> runs on the
  cleared client before anything else: either it succeeds, and the requests sent are the
  login request with Basic authorization followed by the caller's request with the new
  token, or it fails, the caller's request is not sent and the client stays cleared.
\<close>

theorem refresh_iff_missing_or_past_expiry:
  assumes "\<not> (query = ''login/v1'' \<and> strings_ToUpper L method = ''GET'')"
    and "\<not> (data \<noteq> None \<and> strings_ToUpper L method = ''GET'')"
    and "build_request L c (strings_ToUpper L method) query data = Inr req"
  shows "(token c \<noteq> [] \<and> clock w (reads w) \<le> validUntil c \<longrightarrow>
           (\<exists>r w'. Call L method query data c w = (r, c, w')
              \<and> sent w' = sent w @ [Header_Set req ''Authorization'' (bearer_auth c)]))
       \<and> (token c = [] \<or> validUntil c < clock w (reads w) \<longrightarrow>
           (\<exists>r c2 w3. Call L method query data c w = (r, c2, w3) \<and>
              ((\<exists>lreq w2.
                  build_request L c ''GET'' ''login/v1'' None = Inr lreq
                  \<and> login L (c\<lparr>token := [], validUntil := zero_Time\<rparr>) (snd (token_stale c w)) =
                      (None, c2, w2)
                  \<and> sent w3 = sent w @ [Header_Set lreq ''Authorization'' (basic_auth c),
                                         Header_Set req ''Authorization'' (bearer_auth c2)])
               \<or> ((\<exists>e. r = Inl e
                        \<and> login L (c\<lparr>token := [], validUntil := zero_Time\<rparr>) (snd (token_stale c w)) =
                            (Some e, c2, w3))
                   \<and> c2 = c\<lparr>token := [], validUntil := zero_Time\<rparr>
                   \<and> (sent w3 = sent w
                       \<or> (\<exists>lreq. build_request L c ''GET'' ''login/v1'' None = Inr lreq
                             \<and> sent w3 = sent w @ [Header_Set lreq ''Authorization'' (basic_auth c)]))))))"
proof (intro conjI impI)
  assume "token c \<noteq> [] \<and> clock w (reads w) \<le> validUntil c"
  then have "\<not> fst (token_stale c w)"
    by (simp add: token_stale_iff)
  from Call_no_refresh_observed [OF assms this]
  show "\<exists>r w'. Call L method query data c w = (r, c, w')
          \<and> sent w' = sent w @ [Header_Set req ''Authorization'' (bearer_auth c)]" .
next
  assume "token c = [] \<or> validUntil c < clock w (reads w)"
  then have "fst (token_stale c w)"
    by (simp add: token_stale_iff)
  from Call_refresh_observed [OF assms this]
  show "\<exists>r c2 w3. Call L method query data c w = (r, c2, w3) \<and>
              ((\<exists>lreq w2.
                  build_request L c ''GET'' ''login/v1'' None = Inr lreq
                  \<and> login L (c\<lparr>token := [], validUntil := zero_Time\<rparr>) (snd (token_stale c w)) =
                      (None, c2, w2)
                  \<and> sent w3 = sent w @ [Header_Set lreq ''Authorization'' (basic_auth c),
                                         Header_Set req ''Authorization'' (bearer_auth c2)])
               \<or> ((\<exists>e. r = Inl e
                        \<and> login L (c\<lparr>token := [], validUntil := zero_Time\<rparr>) (snd (token_stale c w)) =
                            (Some e, c2, w3))
                   \<and> c2 = c\<lparr>token := [], validUntil := zero_Time\<rparr>
                   \<and> (sent w3 = sent w
                       \<or> (\<exists>lreq. build_request L c ''GET'' ''login/v1'' None = Inr lreq
                             \<and> sent w3 = sent w @ [Header_Set lreq ''Authorization'' (basic_auth c)]))))" .
qed

theorem refresh_iff_missing_or_past_expiry_witness:
  "(\<exists>r w'. Call demo_lib ''GET'' ''platform/'' None (opened_client 5) (demo_world 5) =
              (r, opened_client 5, w')
           \<and> sent w' = [Header_Set platform_request ''Authorization'' ''Bearer abc''])
   \<and> (\<exists>r w'. Call demo_lib ''GET'' ''platform/'' None (opened_client 4) (demo_world 5) =
              (r, opened_client 121000000005, w')
           \<and> sent w' = [Header_Set login_request ''Authorization'' ''Basic dTpw'',
                        Header_Set platform_request ''Authorization'' ''Bearer abc''])"
proof -
  have fresh: "token (opened_client 5) \<noteq> []
               \<and> clock (demo_world 5) (reads (demo_world 5)) \<le> validUntil (opened_client 5)"
    by (simp add: opened_client_def demo_world_def)
  have stale: "token (opened_client 4) = []
               \<or> validUntil (opened_client 4) < clock (demo_world 5) (reads (demo_world 5))"
    by (simp add: opened_client_def demo_world_def)
  have w: "snd (token_stale (opened_client 4) (demo_world 5)) = demo_world 5\<lparr>reads := 1, sent := []\<rparr>"
    by (simp add: token_stale_world opened_client_def demo_world_def)
  have lg: "login demo_lib ((opened_client 4)\<lparr>token := [], validUntil := zero_Time\<rparr>)
              (snd (token_stale (opened_client 4) (demo_world 5))) =
            (None, opened_client 121000000005,
             demo_world 5\<lparr>reads := 2, sent := [Header_Set login_request ''Authorization'' ''Basic dTpw'']\<rparr>)"
    unfolding w by (simp add: demo_login_cleared)
  have first: "\<exists>r w'. Call demo_lib ''GET'' ''platform/'' None (opened_client 5) (demo_world 5) =
              (r, opened_client 5, w')
           \<and> sent w' = [Header_Set platform_request ''Authorization'' ''Bearer abc'']"
    using refresh_iff_missing_or_past_expiry
            [OF demo_not_login demo_no_payload demo_build_platform_upper, of 5 "demo_world 5"] fresh
    by (simp add: demo_world_def bearer_auth_def opened_client_def)
  have second: "\<exists>r w'. Call demo_lib ''GET'' ''platform/'' None (opened_client 4) (demo_world 5) =
              (r, opened_client 121000000005, w')
           \<and> sent w' = [Header_Set login_request ''Authorization'' ''Basic dTpw'',
                        Header_Set platform_request ''Authorization'' ''Bearer abc'']"
    using refresh_iff_missing_or_past_expiry
            [OF demo_not_login demo_no_payload demo_build_platform_upper, of 4 "demo_world 5"] stale
    by (simp add: lg demo_build_login demo_basic_auth)
       (auto simp: demo_world_def bearer_auth_def opened_client_def)
  from first second show ?thesis by simp
qed

subsection \<open>What a login stores\<close>

text \<open>
  C2, as stated: a successful login stores the instant of the clock plus the lifetime in
  seconds. The lifetime is multiplied by \<^verbatim>\<open>time.Second\<close> in 64 bits: a response with
  \<^verbatim>\<open>"expires_in":9223372037\<close> read at instant 1000 stores an expiry some 292 years
  before that instant.
\<close>

theorem long_lifetime_wraps_counterexample:
  "fst (login demo_lib (opened_client 0) long_world) = None
   \<and> clock long_world (reads long_world) = 1000
   \<and> json_Unmarshal_LoginResponse demo_lib login_body_long =
       Inr (Some \<lparr>AccessToken = ''abc'', ExpiresIn = 9223372037, TokenType = ''bearer''\<rparr>)
   \<and> validUntil (fst (snd (login demo_lib (opened_client 0) long_world))) =
       1000 - 9223372036709551616
   \<and> validUntil (fst (snd (login demo_lib (opened_client 0) long_world))) \<noteq>
       1000 + 9223372037 * 1000000000"
proof -
  have c: "Call demo_lib ''GET'' ''login/v1'' None (opened_client 0) long_world =
             (Inr login_body_long, opened_client 0,
              long_world\<lparr>sent := [Header_Set login_request ''Authorization'' ''Basic dTpw'']\<rparr>)"
    by (simp add: Call_login_resource demo_build_login demo_basic_auth roundtrip_def
          client_Do_def long_world_def demo_world_def fixed_server_def long_login_response_def
          classify_def)
  have "login demo_lib (opened_client 0) long_world =
          (None, opened_client (1000 - 9223372036709551616),
           long_world\<lparr>sent := [Header_Set login_request ''Authorization'' ''Basic dTpw''],
                       reads := 1\<rparr>)"
    by (simp add: login.simps c demo_decode_login_long time_Now_def Time_Add_seconds_def
          time_Second_def opened_client_update)
       (simp add: long_world_def demo_world_def)
  then show ?thesis
    by (simp add: demo_decode_login_long) (simp add: long_world_def demo_world_def opened_client_def)
qed

text \<open>
  C2, amended: a successful login replaces token and expiry by the token of the response
  and by the instant of the clock plus the lifetime times \<^verbatim>\<open>time.Second\<close> as a 64-bit
  product; that is the instant plus the lifetime in seconds whenever the lifetime is
  between -9223372036 and 9223372036 seconds, so a lifetime of 60 read at \<open>T\<close> stores
  \<open>T\<close> plus 60 seconds. A later call other than the login exchange that reads the clock
  after that expiry (at \<open>T\<close> plus 61 seconds, say) runs one login first: the requests
  sent are one login request and then the caller's request with the new token, or, if
  that login fails, at most the login request.
\<close>

theorem login_stores_expiry_and_later_call_refreshes:
  assumes "login L c0 w0 = (None, c, w)"
  shows "\<exists>lreq body resp.
           build_request L c0 ''GET'' ''login/v1'' None = Inr lreq
         \<and> fst (roundtrip L c0 (Header_Set lreq ''Authorization'' (basic_auth c0)) w0) = Inr body
         \<and> json_Unmarshal_LoginResponse L body = Inr (Some resp)
         \<and> c = c0\<lparr>token := AccessToken resp,
                    validUntil := Time_Add_seconds (clock w0 (reads w0)) (ExpiresIn resp)\<rparr>
         \<and> w = w0\<lparr>sent := sent w0 @ [Header_Set lreq ''Authorization'' (basic_auth c0)],
                    reads := Suc (reads w0)\<rparr>
         \<and> (- 9223372036 \<le> sint (ExpiresIn resp) \<and> sint (ExpiresIn resp) \<le> 9223372036 \<longrightarrow>
              validUntil c = clock w0 (reads w0) + sint (ExpiresIn resp) * 1000000000)
         \<and> (ExpiresIn resp = 60 \<longrightarrow> validUntil c = clock w0 (reads w0) + 60000000000)
         \<and> (\<not> (query = ''login/v1'' \<and> strings_ToUpper L method = ''GET'')
            \<and> \<not> (data \<noteq> None \<and> strings_ToUpper L method = ''GET'')
            \<and> build_request L c (strings_ToUpper L method) query data = Inr req
            \<and> validUntil c < clock wn (reads wn) \<longrightarrow>
              (\<exists>r c2 w3. Call L method query data c wn = (r, c2, w3) \<and>
                 ((\<exists>lreq' w2.
                     build_request L c ''GET'' ''login/v1'' None = Inr lreq'
                     \<and> login L (c\<lparr>token := [], validUntil := zero_Time\<rparr>) (snd (token_stale c wn)) =
                         (None, c2, w2)
                     \<and> sent w3 = sent wn @ [Header_Set lreq' ''Authorization'' (basic_auth c),
                                             Header_Set req ''Authorization'' (bearer_auth c2)])
                  \<or> ((\<exists>e. r = Inl e
                           \<and> login L (c\<lparr>token := [], validUntil := zero_Time\<rparr>) (snd (token_stale c wn)) =
                               (Some e, c2, w3))
                      \<and> c2 = c\<lparr>token := [], validUntil := zero_Time\<rparr>
                      \<and> (sent w3 = sent wn
                          \<or> (\<exists>lreq'. build_request L c ''GET'' ''login/v1'' None = Inr lreq'
                                \<and> sent w3 = sent wn @ [Header_Set lreq' ''Authorization'' (basic_auth c)]))))))"
proof -
  from login_success [OF assms] obtain lreq body resp w1 where
    lreq: "build_request L c0 ''GET'' ''login/v1'' None = Inr lreq"
    and w1: "w1 = w0\<lparr>sent := sent w0 @ [Header_Set lreq ''Authorization'' (basic_auth c0)]\<rparr>"
    and rt: "roundtrip L c0 (Header_Set lreq ''Authorization'' (basic_auth c0)) w0 = (Inr body, w1)"
    and resp: "json_Unmarshal_LoginResponse L body = Inr (Some resp)"
    and c: "c = c0\<lparr>token := AccessToken resp,
                    validUntil := Time_Add_seconds (clock w1 (reads w1)) (ExpiresIn resp)\<rparr>"
    and w: "w = w1\<lparr>reads := Suc (reads w1)\<rparr>"
    by blast
  have c': "c = c0\<lparr>token := AccessToken resp,
                    validUntil := Time_Add_seconds (clock w0 (reads w0)) (ExpiresIn resp)\<rparr>"
    using c w1 by simp
  have w': "w = w0\<lparr>sent := sent w0 @ [Header_Set lreq ''Authorization'' (basic_auth c0)],
                    reads := Suc (reads w0)\<rparr>"
    using w w1 by simp
  have range: "- 9223372036 \<le> sint (ExpiresIn resp) \<and> sint (ExpiresIn resp) \<le> 9223372036 \<longrightarrow>
              validUntil c = clock w0 (reads w0) + sint (ExpiresIn resp) * 1000000000"
    using c' by (simp add: seconds_in_range)
  have sixty: "ExpiresIn resp = 60 \<longrightarrow> validUntil c = clock w0 (reads w0) + 60000000000"
    using c' by (simp add: Time_Add_seconds_def time_Second_def)
  have later: "\<not> (query = ''login/v1'' \<and> strings_ToUpper L method = ''GET'')
            \<and> \<not> (data \<noteq> None \<and> strings_ToUpper L method = ''GET'')
            \<and> build_request L c (strings_ToUpper L method) query data = Inr req
            \<and> validUntil c < clock wn (reads wn) \<longrightarrow>
              (\<exists>r c2 w3. Call L method query data c wn = (r, c2, w3) \<and>
                 ((\<exists>lreq' w2.
                     build_request L c ''GET'' ''login/v1'' None = Inr lreq'
                     \<and> login L (c\<lparr>token := [], validUntil := zero_Time\<rparr>) (snd (token_stale c wn)) =
                         (None, c2, w2)
                     \<and> sent w3 = sent wn @ [Header_Set lreq' ''Authorization'' (basic_auth c),
                                             Header_Set req ''Authorization'' (bearer_auth c2)])
                  \<or> ((\<exists>e. r = Inl e
                           \<and> login L (c\<lparr>token := [], validUntil := zero_Time\<rparr>) (snd (token_stale c wn)) =
                               (Some e, c2, w3))
                      \<and> c2 = c\<lparr>token := [], validUntil := zero_Time\<rparr>
                      \<and> (sent w3 = sent wn
                          \<or> (\<exists>lreq'. build_request L c ''GET'' ''login/v1'' None = Inr lreq'
                                \<and> sent w3 = sent wn @ [Header_Set lreq' ''Authorization'' (basic_auth c)])))))"
  proof (intro impI, elim conjE)
    assume nl: "\<not> (query = ''login/v1'' \<and> strings_ToUpper L method = ''GET'')"
      and np: "\<not> (data \<noteq> None \<and> strings_ToUpper L method = ''GET'')"
      and br: "build_request L c (strings_ToUpper L method) query data = Inr req"
      and late: "validUntil c < clock wn (reads wn)"
    from late have st: "fst (token_stale c wn)"
      by (simp add: token_stale_iff)
    from Call_refresh_observed [OF nl np br st]
    show "\<exists>r c2 w3. Call L method query data c wn = (r, c2, w3) \<and>
                 ((\<exists>lreq' w2.
                     build_request L c ''GET'' ''login/v1'' None = Inr lreq'
                     \<and> login L (c\<lparr>token := [], validUntil := zero_Time\<rparr>) (snd (token_stale c wn)) =
                         (None, c2, w2)
                     \<and> sent w3 = sent wn @ [Header_Set lreq' ''Authorization'' (basic_auth c),
                                             Header_Set req ''Authorization'' (bearer_auth c2)])
                  \<or> ((\<exists>e. r = Inl e
                           \<and> login L (c\<lparr>token := [], validUntil := zero_Time\<rparr>) (snd (token_stale c wn)) =
                               (Some e, c2, w3))
                      \<and> c2 = c\<lparr>token := [], validUntil := zero_Time\<rparr>
                      \<and> (sent w3 = sent wn
                          \<or> (\<exists>lreq'. build_request L c ''GET'' ''login/v1'' None = Inr lreq'
                                \<and> sent w3 = sent wn @ [Header_Set lreq' ''Authorization'' (basic_auth c)]))))" .
  qed
  from rt have "fst (roundtrip L c0 (Header_Set lreq ''Authorization'' (basic_auth c0)) w0) = Inr body"
    by simp
  with lreq resp c' w' range sixty later show ?thesis
    by blast
qed

theorem login_stores_expiry_and_later_call_refreshes_witness:
  "login demo_lib (opened_client 0) (demo_world 1000) =
     (None, opened_client 60000001000,
      demo_world 1000\<lparr>reads := 1, sent := [Header_Set login_request ''Authorization'' ''Basic dTpw'']\<rparr>)
   \<and> validUntil (opened_client 60000001000) = clock (demo_world 1000) 0 + 60000000000
   \<and> clock (demo_world 1000) 1 = clock (demo_world 1000) 0 + 61000000000
   \<and> (\<exists>r c2 w3.
        Call demo_lib ''GET'' ''platform/'' None (opened_client 60000001000)
          (demo_world 1000\<lparr>reads := 1,
                           sent := [Header_Set login_request ''Authorization'' ''Basic dTpw'']\<rparr>) =
          (r, c2, w3)
        \<and> sent w3 = [Header_Set login_request ''Authorization'' ''Basic dTpw'',
                      Header_Set login_request ''Authorization'' ''Basic dTpw'',
                      Header_Set platform_request ''Authorization'' (bearer_auth c2)])"
proof -
  let ?c = "opened_client 60000001000"
  let ?w = "demo_world 1000\<lparr>reads := 1,
              sent := [Header_Set login_request ''Authorization'' ''Basic dTpw'']\<rparr>"
  have w0: "demo_world 1000 = demo_world 1000\<lparr>reads := 0, sent := []\<rparr>"
    by (simp add: demo_world_def)
  have lg: "login demo_lib (opened_client 0) (demo_world 1000) = (None, ?c, ?w)"
    by (subst w0) (simp add: demo_login)
  have late: "validUntil ?c < clock ?w (reads ?w)"
    by (simp add: opened_client_def demo_world_def)
  have sw: "snd (token_stale ?c ?w) =
              demo_world 1000\<lparr>reads := 2,
                sent := [Header_Set login_request ''Authorization'' ''Basic dTpw'']\<rparr>"
    by (simp add: token_stale_world opened_client_def demo_world_def)
  have lg2: "fst (login demo_lib (?c\<lparr>token := [], validUntil := zero_Time\<rparr>) (snd (token_stale ?c ?w))) = None"
    unfolding sw by (simp only: demo_login_cleared fst_conv)
  from login_stores_expiry_and_later_call_refreshes
         [OF lg, of "''platform/''" "''GET''" None platform_request ?w]
       demo_not_login demo_no_payload demo_build_platform_upper [of 60000001000] late
  obtain r c2 w3 where
    call: "Call demo_lib ''GET'' ''platform/'' None ?c ?w = (r, c2, w3)"
    and cases: "(\<exists>lreq' w2.
                     build_request demo_lib ?c ''GET'' ''login/v1'' None = Inr lreq'
                     \<and> login demo_lib (?c\<lparr>token := [], validUntil := zero_Time\<rparr>) (snd (token_stale ?c ?w)) =
                         (None, c2, w2)
                     \<and> sent w3 = sent ?w @ [Header_Set lreq' ''Authorization'' (basic_auth ?c),
                                             Header_Set platform_request ''Authorization'' (bearer_auth c2)])
                  \<or> ((\<exists>e. r = Inl e
                           \<and> login demo_lib (?c\<lparr>token := [], validUntil := zero_Time\<rparr>) (snd (token_stale ?c ?w)) =
                               (Some e, c2, w3)))"
    by blast
  from cases lg2 have "\<exists>lreq'. build_request demo_lib ?c ''GET'' ''login/v1'' None = Inr lreq'
         \<and> sent w3 = sent ?w @ [Header_Set lreq' ''Authorization'' (basic_auth ?c),
                                 Header_Set platform_request ''Authorization'' (bearer_auth c2)]"
    by auto
  then have "sent w3 = [Header_Set login_request ''Authorization'' ''Basic dTpw'',
                      Header_Set login_request ''Authorization'' ''Basic dTpw'',
                      Header_Set platform_request ''Authorization'' (bearer_auth c2)]"
    by (simp add: demo_build_login demo_basic_auth)
  with call lg show ?thesis
    by (simp add: opened_client_def demo_world_def)
qed

section \<open>The address on an opened session\<close>





end
